theory Spec2Isabelle
  imports Complex_Main
begin

section \<open>Values, errors and checked numerics\<close>

text \<open>
  The inversion engine of \<^verbatim>\<open>tofu/data/_inversions_comp.py\<close> works on numpy arrays of
  64-bit floats. The model takes floats as reals, a 1-D array as a list and a 2-D array
  as the list of its rows. Whatever the Python does besides returning is a value:
  \<^item> an exception is \<open>Inl\<close> of an \<open>error\<close>;
  \<^item> a numpy operation on operands whose shapes do not agree is \<open>Inl ShapeError\<close>
    (broadcasting is modelled for \<^verbatim>\<open>data / sigma\<close> only, where \<^verbatim>\<open>sigma\<close> may have one row);
  \<^item> an operation whose IEEE result is infinite or not a number (a division by
    zero, an empty mean, a negative base under a fractional exponent) is
    \<open>Inl NonFinite\<close>: numpy raises nothing there and goes on with inf or nan, which
    the reals do not have, so the model stops the run at that point;
  \<^item> a loop that never ends is \<open>None\<close>.
  Rounding is not modelled, and neither is the printing under \<^verbatim>\<open>verb\<close>.
\<close>

type_synonym vec = "real list"
type_synonym mat = "real list list"

datatype error =
    PyException string
  | LinAlgError
  | ValueError
  | ShapeError
  | IndexError
  | NameError
  | UnboundLocalError
  | NonFinite

fun bindE :: "error + 'a \<Rightarrow> ('a \<Rightarrow> error + 'b) \<Rightarrow> error + 'b" where
  "bindE (Inl e) f = Inl e"
| "bindE (Inr x) f = f x"

definition getitem :: "'a list \<Rightarrow> nat \<Rightarrow> error + 'a" where
  "getitem xs i = (if i < length xs then Inr (xs ! i) else Inl IndexError)"

definition fdiv :: "real \<Rightarrow> real \<Rightarrow> error + real" where
  "fdiv x y = (if y = 0 then Inl NonFinite else Inr (x / y))"

definition fpow :: "real \<Rightarrow> real \<Rightarrow> error + real" where
  \<comment> \<open>\<^verbatim>\<open>x ** d\<close> on numpy floats.\<close>
  "fpow x d =
     (if 0 < x then Inr (x powr d)
      else if x = 0 then (if 0 < d then Inr 0 else if d = 0 then Inr 1 else Inl NonFinite)
      else if d = of_int \<lfloor>d\<rfloor>
        then Inr ((if even \<lfloor>d\<rfloor> then 1 else - 1) * ((- x) powr d))
        else Inl NonFinite)"

definition ncols :: "'a list list \<Rightarrow> nat" where
  \<comment> \<open>\<^verbatim>\<open>A.shape[1]\<close>; an array without rows is taken to have no columns\<close>
  "ncols A = (case A of [] \<Rightarrow> 0 | r # _ \<Rightarrow> length r)"

definition is_mat :: "nat \<Rightarrow> nat \<Rightarrow> mat \<Rightarrow> bool" where
  "is_mat n m A = (length A = n \<and> list_all (\<lambda>r. length r = m) A)"

definition vec_sub :: "vec \<Rightarrow> vec \<Rightarrow> error + vec" where
  "vec_sub x y = (if length x = length y then Inr (map2 (-) x y) else Inl ShapeError)"

definition vdot :: "vec \<Rightarrow> vec \<Rightarrow> error + real" where
  "vdot x y = (if length x = length y then Inr (sum_list (map2 (*) x y)) else Inl ShapeError)"

definition mat_vec :: "mat \<Rightarrow> vec \<Rightarrow> error + vec" where
  \<comment> \<open>\<^verbatim>\<open>A.dot(x)\<close>\<close>
  "mat_vec A x =
     (if list_all (\<lambda>r. length r = length x) A
      then Inr (map (\<lambda>r. sum_list (map2 (*) r x)) A) else Inl ShapeError)"

definition mat_add :: "mat \<Rightarrow> mat \<Rightarrow> error + mat" where
  \<comment> \<open>\<^verbatim>\<open>A + B\<close>\<close>
  "mat_add A B =
     (if length A = length B \<and> list_all (\<lambda>(r, s). length r = length s) (zip A B)
      then Inr (map2 (map2 (+)) A B) else Inl ShapeError)"

definition mat_scale :: "real \<Rightarrow> mat \<Rightarrow> mat" where
  \<comment> \<open>\<^verbatim>\<open>c * A\<close>\<close>
  "mat_scale c A = map (map ((*) c)) A"

definition col :: "mat \<Rightarrow> nat \<Rightarrow> vec" where
  "col A j = map (\<lambda>r. r ! j) A"

definition gram :: "mat \<Rightarrow> mat" where
  \<comment> \<open>\<^verbatim>\<open>Tn.T.dot(Tn)\<close>, for a rectangular \<open>Tn\<close>\<close>
  "gram A = map (\<lambda>i. map (\<lambda>j. sum_list (map2 (*) (col A i) (col A j))) [0..<ncols A])
                [0..<ncols A]"

definition tdot :: "mat \<Rightarrow> vec \<Rightarrow> error + vec" where
  \<comment> \<open>\<^verbatim>\<open>Tn.T.dot(y)\<close>\<close>
  "tdot A y =
     (if length A = length y \<and> list_all (\<lambda>r. length r = ncols A) A
      then Inr (map (\<lambda>j. sum_list (map2 (*) (col A j) y)) [0..<ncols A])
      else Inl ShapeError)"

definition mean :: "vec \<Rightarrow> error + real" where
  \<comment> \<open>\<^verbatim>\<open>np.nanmean\<close> and \<^verbatim>\<open>.mean()\<close> of a flat array: the reals have no nan to skip\<close>
  "mean xs = fdiv (sum_list xs) (real (length xs))"

fun sequenceE :: "(error + 'a) list \<Rightarrow> error + 'a list" where
  "sequenceE [] = Inr []"
| "sequenceE (m # ms) = bindE m (\<lambda>x. bindE (sequenceE ms) (\<lambda>xs. Inr (x # xs)))"

section \<open>The regularisation operator\<close>

text \<open>
  Lines 96 to 104 of \<^verbatim>\<open>compute_inversions\<close>:
  \<^verbatim>\<open>
    if operator == 'D0N2':
        R = opmat[0]
    elif operator == 'D1N2':
        R = opmat[0] + opmat[1]
    elif operator == 'D2N2':
        R = opmat[0] + opmat[1]
    else:
        msg = 'unknown operator!'
        raise Exception(msg)
  \<close>
\<close>

definition select_R :: "string \<Rightarrow> mat list \<Rightarrow> error + mat" where
  "select_R operator opmat =
     (if operator = ''D0N2'' then getitem opmat 0
      else if operator = ''D1N2'' then
        bindE (getitem opmat 0) (\<lambda>A. bindE (getitem opmat 1) (\<lambda>B. mat_add A B))
      else if operator = ''D2N2'' then
        bindE (getitem opmat 0) (\<lambda>A. bindE (getitem opmat 1) (\<lambda>B. mat_add A B))
      else Inl (PyException ''unknown operator!''))"

section \<open>The augmented-Tikhonov iteration\<close>

text \<open>
  The keyword arguments of a backend. \<^verbatim>\<open>sol0\<close> is not among them: it is an array the
  backend writes into, so it is passed and returned beside the record. The arguments
  \<^verbatim>\<open>atol\<close>, \<^verbatim>\<open>btol\<close>, \<^verbatim>\<open>conlim\<close>, \<^verbatim>\<open>precond\<close>, \<^verbatim>\<open>chain\<close> and \<^verbatim>\<open>maxiter\<close> are accepted and
  never read by any backend; \<^verbatim>\<open>maxiter\<close>, \<^verbatim>\<open>chain\<close> and \<^verbatim>\<open>precond\<close> are kept in the record,
  unread.
\<close>

record bargs =
  arg_Tn :: mat
  arg_TTn :: mat
  arg_Tyn :: vec
  arg_R :: mat
  arg_yn :: vec
  arg_nchan :: nat
  arg_nbs :: nat
  arg_mu0 :: real
  arg_conv_crit :: real
  arg_a0 :: real
  arg_b0 :: real
  arg_a1 :: real
  arg_b1 :: real
  arg_d :: real
  arg_maxiter :: int
  arg_conv_reg :: bool
  arg_nbs_fixed :: bool
  arg_chain :: bool
  arg_precond :: "mat option"

text \<open>
  \<^verbatim>\<open>
    a0bis = a0 - 1. + nbs/2. if not nbs_fixed else a0 - 1. + 1200./2.
    a1bis = a1 - 1. + nchan/2.
  \<close>
  The conditional expression binds weaker than the sums.
\<close>

definition a0bis :: "real \<Rightarrow> nat \<Rightarrow> bool \<Rightarrow> real" where
  "a0bis a0 nbs nbs_fixed =
     (if \<not> nbs_fixed then a0 - 1 + real nbs / 2 else a0 - 1 + 1200 / 2)"

definition a1bis :: "real \<Rightarrow> nat \<Rightarrow> real" where
  "a1bis a1 nchan = a1 - 1 + real nchan / 2"

text \<open>
  The re-estimation of the hyperparameters, given the residual and the regularity:
  \<^verbatim>\<open>
    lamb = a0bis/(0.5*reg + b0)
    tau = a1bis/(0.5*res2 + b1)
    mu1 = (lamb/tau) * (2*a1bis/res2)**d
  \<close>
  The result is \<open>(lamb, tau, mu1)\<close>.
\<close>

definition update_hyper ::
  "real \<Rightarrow> real \<Rightarrow> real \<Rightarrow> real \<Rightarrow> real \<Rightarrow> real \<Rightarrow> real \<Rightarrow> error + (real \<times> real \<times> real)" where
  "update_hyper a0b b0 a1b b1 d res2 reg =
     bindE (fdiv a0b (0.5 * reg + b0)) (\<lambda>lamb.
     bindE (fdiv a1b (0.5 * res2 + b1)) (\<lambda>tau.
     bindE (fdiv lamb tau) (\<lambda>q.
     bindE (fdiv (2 * a1b) res2) (\<lambda>base.
     bindE (fpow base d) (\<lambda>p.
       Inr (lamb, tau, q * p))))))"

text \<open>
  The convergence variable:
  \<^verbatim>\<open>
    if conv_reg:
        conv = np.abs(mu1 - mu0) / mu1
    else:
        sol2 = sol**2
        sol2max = np.max(sol2)
        sol2[sol2 < 0.001*sol2max] = 0.001*sol2max
        conv = np.sqrt(np.sum((sol - sol0)**2 / sol2) / nbs)
  \<close>
  \<^verbatim>\<open>np.max\<close> of an empty array raises ValueError.
\<close>

definition conv_of :: "bool \<Rightarrow> nat \<Rightarrow> real \<Rightarrow> real \<Rightarrow> vec \<Rightarrow> vec \<Rightarrow> error + real" where
  "conv_of conv_reg nbs mu1 mu0 sol sol0 =
     (if conv_reg then fdiv \<bar>mu1 - mu0\<bar> mu1
      else if sol = [] then Inl ValueError
      else
        let sol2 = map (\<lambda>x. x ^ 2) sol;
            sol2max = fold max (tl sol2) (hd sol2);
            clipped = map (\<lambda>x. if x < 0.001 * sol2max then 0.001 * sol2max else x) sol2
        in bindE (vec_sub sol sol0) (\<lambda>dif.
           bindE (sequenceE (map2 (\<lambda>x s. fdiv (x ^ 2) s) dif clipped)) (\<lambda>qs.
           bindE (fdiv (sum_list qs) (real nbs)) (\<lambda>m.
             Inr (sqrt m)))))"

definition assign_vec :: "nat \<Rightarrow> vec \<Rightarrow> error + vec" where
  \<comment> \<open>\<^verbatim>\<open>dst[:] = src\<close> for a \<open>dst\<close> of \<open>n\<close> entries: the new content of \<open>dst\<close>\<close>
  "assign_vec n src = (if length src = n then Inr src else Inl ShapeError)"

text \<open>
  What one pass of the loop body assigns and the \<^verbatim>\<open>return\<close> reads: \<^verbatim>\<open>sol\<close>, \<^verbatim>\<open>chi2n\<close>,
  \<^verbatim>\<open>reg\<close>, \<^verbatim>\<open>tau\<close>, \<^verbatim>\<open>lamb\<close>. They are unbound until the body has run once.
\<close>

record iter_out =
  o_sol :: vec
  o_chi2n :: real
  o_reg :: real
  o_tau :: real
  o_lamb :: real

text \<open>
  The variables of the loop. \<open>st_priv\<close> is what a backend keeps besides them: the
  \<^verbatim>\<open>factor\<close> of the sparse Cholesky backend, nothing for the others.
\<close>

record 'x iter_state =
  st_sol0 :: vec
  st_mu0 :: real
  st_conv :: real
  st_niter :: nat
  st_mu1 :: real
  st_out :: "iter_out option"
  st_priv :: 'x

text \<open>
  The body of the \<^verbatim>\<open>while\<close>, which the four backends share word for word but for the
  call that solves \<open>(TTn + mu0*R) sol = Tyn\<close>; that call is the parameter \<open>solve\<close>.
  \<^verbatim>\<open>
        sol = <solve>(TTn + mu0*R, Tyn)
        res2 = np.sum((Tn.dot(sol)-yn)**2)
        chi2n = res2/nchan
        reg = sol.dot(R.dot(sol))
        lamb = ...; tau = ...; mu1 = ...
        conv = ...
        sol0[:] = sol[:]
        mu0 = mu1
        niter += 1
  \<close>
\<close>

definition iter_body ::
  "('x \<Rightarrow> mat \<Rightarrow> vec \<Rightarrow> error + vec \<times> 'x) \<Rightarrow> bargs \<Rightarrow> 'x iter_state
     \<Rightarrow> error + 'x iter_state" where
  "iter_body solve p st =
     bindE (mat_add (arg_TTn p) (mat_scale (st_mu0 st) (arg_R p))) (\<lambda>A.
     bindE (solve (st_priv st) A (arg_Tyn p)) (\<lambda>(sol, priv).
     bindE (mat_vec (arg_Tn p) sol) (\<lambda>Ts.
     bindE (vec_sub Ts (arg_yn p)) (\<lambda>r.
     let res2 = sum_list (map (\<lambda>x. x ^ 2) r) in
     bindE (fdiv res2 (real (arg_nchan p))) (\<lambda>chi2n.
     bindE (mat_vec (arg_R p) sol) (\<lambda>Rs.
     bindE (vdot sol Rs) (\<lambda>reg.
     bindE (update_hyper (a0bis (arg_a0 p) (arg_nbs p) (arg_nbs_fixed p)) (arg_b0 p)
              (a1bis (arg_a1 p) (arg_nchan p)) (arg_b1 p) (arg_d p) res2 reg)
       (\<lambda>(lamb, tau, mu1).
     bindE (conv_of (arg_conv_reg p) (arg_nbs p) mu1 (st_mu0 st) sol (st_sol0 st)) (\<lambda>conv.
     bindE (assign_vec (length (st_sol0 st)) sol) (\<lambda>sol0.
       Inr \<lparr>st_sol0 = sol0, st_mu0 = mu1, st_conv = conv, st_niter = st_niter st + 1,
            st_mu1 = mu1,
            st_out = Some \<lparr>o_sol = sol, o_chi2n = chi2n, o_reg = reg, o_tau = tau,
                           o_lamb = lamb\<rparr>,
            st_priv = priv\<rparr>))))))))))"

text \<open>
  \<^verbatim>\<open>while  niter < 2 or conv > conv_crit:\<close>
  Nothing bounds the number of passes, so the loop is a partial function: \<open>None\<close> when
  it never ends, \<open>Some (Inl e)\<close> when a pass raises, \<open>Some (Inr st)\<close> with the variables
  at the exit otherwise.
\<close>

partial_function (option) iter_loop ::
  "('x \<Rightarrow> mat \<Rightarrow> vec \<Rightarrow> error + vec \<times> 'x) \<Rightarrow> bargs \<Rightarrow> 'x iter_state
     \<Rightarrow> (error + 'x iter_state) option" where
  "iter_loop solve p st =
     (if st_niter st < 2 \<or> arg_conv_crit p < st_conv st
      then (case iter_body solve p st of
              Inl e \<Rightarrow> Some (Inl e)
            | Inr st' \<Rightarrow> iter_loop solve p st')
      else Some (Inr st))"

text \<open>
  The variables before the loop:
  \<^verbatim>\<open>
    conv = 0.
    niter = 0
    mu1 = 0.
  \<close>
\<close>

definition init_state :: "bargs \<Rightarrow> vec \<Rightarrow> 'x \<Rightarrow> 'x iter_state" where
  "init_state p sol0 priv =
     \<lparr>st_sol0 = sol0, st_mu0 = arg_mu0 p, st_conv = 0, st_niter = 0, st_mu1 = 0,
      st_out = None, st_priv = priv\<rparr>"

text \<open>\<^verbatim>\<open>return sol, mu1, chi2n, reg, niter, [tau, lamb]\<close>\<close>

record result =
  r_sol :: vec
  r_mu :: real
  r_chi2n :: real
  r_reg :: real
  r_niter :: nat
  r_spec :: "real list"

definition iter_return :: "'x iter_state \<Rightarrow> error + result \<times> vec" where
  \<comment> \<open>the returned tuple, and the content of the caller's \<^verbatim>\<open>sol0\<close> array at the return\<close>
  "iter_return st =
     (case st_out st of
        None \<Rightarrow> Inl UnboundLocalError
      | Some out \<Rightarrow>
          Inr (\<lparr>r_sol = o_sol out, r_mu = st_mu1 st, r_chi2n = o_chi2n out,
                r_reg = o_reg out, r_niter = st_niter st,
                r_spec = [o_tau out, o_lamb out]\<rparr>,
               st_sol0 st))"

definition run_backend ::
  "('x \<Rightarrow> mat \<Rightarrow> vec \<Rightarrow> error + vec \<times> 'x) \<Rightarrow> 'x \<Rightarrow> bargs \<Rightarrow> vec
     \<Rightarrow> (error + result \<times> vec) option" where
  "run_backend solve priv p sol0 =
     (case iter_loop solve p (init_state p sol0 priv) of
        None \<Rightarrow> None
      | Some (Inl e) \<Rightarrow> Some (Inl e)
      | Some (Inr st) \<Rightarrow> Some (iter_return st))"

subsection \<open>The four backends\<close>

text \<open>
  The solvers are scipy's and CHOLMOD's, not this repository's: they are parameters.
  \<open>'f\<close> is CHOLMOD's factor object. \<^verbatim>\<open>cholesky_inplace\<close> changes the object it is
  called on, also when it raises: it gives the object afterwards and the exception, if
  any.
\<close>

datatype assume_a = Pos | Sym

record 'f numlib =
  scplin_solve :: "assume_a \<Rightarrow> mat \<Rightarrow> vec \<Rightarrow> error + vec"
  scplin_cholesky :: "mat \<Rightarrow> error + mat"
  scplin_cho_solve :: "mat \<Rightarrow> vec \<Rightarrow> error + vec"
  spsolve :: "mat \<Rightarrow> vec \<Rightarrow> error + vec"
  spinv :: "mat \<Rightarrow> error + mat"
  cholmod_cholesky :: "mat \<Rightarrow> error + 'f"
  cholesky_inplace :: "'f \<Rightarrow> mat \<Rightarrow> 'f \<times> error option"
  solve_A :: "'f \<Rightarrow> vec \<Rightarrow> error + vec"

definition solve_v1 :: "'f numlib \<Rightarrow> unit \<Rightarrow> mat \<Rightarrow> vec \<Rightarrow> error + vec \<times> unit" where
  \<comment> \<open>\<^verbatim>\<open>scplin.solve(TTn + mu0*R, Tyn, assume_a='pos', ...)\<close>\<close>
  "solve_v1 lib u A b = bindE (scplin_solve lib Pos A b) (\<lambda>sol. Inr (sol, ()))"

definition solve_v1_sparse :: "'f numlib \<Rightarrow> unit \<Rightarrow> mat \<Rightarrow> vec \<Rightarrow> error + vec \<times> unit" where
  \<comment> \<open>\<^verbatim>\<open>scpsp.linalg.spsolve(TTn + mu0*R, Tyn, ...)\<close>\<close>
  "solve_v1_sparse lib u A b = bindE (spsolve lib A b) (\<lambda>sol. Inr (sol, ()))"

definition solve_chol :: "'f numlib \<Rightarrow> unit \<Rightarrow> mat \<Rightarrow> vec \<Rightarrow> error + vec \<times> unit" where
  \<comment> \<open>\<^verbatim>\<open>try: chol = scplin.cholesky(...); sol = scplin.cho_solve((chol, False), Tyn)\<close>,
      \<^verbatim>\<open>except Exception: sol = scplin.solve(..., assume_a='sym')\<close>\<close>
  "solve_chol lib u A b =
     (case bindE (scplin_cholesky lib A) (\<lambda>chol. scplin_cho_solve lib chol b) of
        Inr sol \<Rightarrow> Inr (sol, ())
      | Inl err \<Rightarrow> bindE (scplin_solve lib Sym A b) (\<lambda>sol. Inr (sol, ())))"

text \<open>
  \<^verbatim>\<open>
        try:
            if factor is None:
                factor = sksp.cholmod.cholesky(TTn + mu0*R, ...)
            else:
                # re-use same factor
                factor.cholesky_inplace(TTn + mu0*R, beta=0)
            sol = factor.solve_A(Tyn)
        except Exception as err:
            sol = scpsp.linalg.spsolve(TTn + mu0*R, Tyn, ...)
  \<close>
  When \<^verbatim>\<open>cholesky\<close> raises, \<^verbatim>\<open>factor\<close> is still \<^verbatim>\<open>None\<close>.
\<close>

definition solve_chol_sparse ::
  "'f numlib \<Rightarrow> 'f option \<Rightarrow> mat \<Rightarrow> vec \<Rightarrow> error + vec \<times> 'f option" where
  "solve_chol_sparse lib factor A b =
     (let fallback = (\<lambda>fac. bindE (spsolve lib A b) (\<lambda>sol. Inr (sol, fac))) in
      case factor of
        None \<Rightarrow>
          (case cholmod_cholesky lib A of
             Inl err \<Rightarrow> fallback None
           | Inr f \<Rightarrow>
               (case solve_A lib f b of
                  Inr sol \<Rightarrow> Inr (sol, Some f)
                | Inl err \<Rightarrow> fallback (Some f)))
      | Some f \<Rightarrow>
          (case cholesky_inplace lib f A of
             (f', Some err) \<Rightarrow> fallback (Some f')
           | (f', None) \<Rightarrow>
               (case solve_A lib f' b of
                  Inr sol \<Rightarrow> Inr (sol, Some f')
                | Inl err \<Rightarrow> fallback (Some f'))))"

definition inv_linear_augTikho_v1 ::
  "'f numlib \<Rightarrow> bargs \<Rightarrow> vec \<Rightarrow> (error + result \<times> vec) option" where
  "inv_linear_augTikho_v1 lib p sol0 = run_backend (solve_v1 lib) () p sol0"

definition inv_linear_augTikho_v1_sparse ::
  "'f numlib \<Rightarrow> bargs \<Rightarrow> vec \<Rightarrow> (error + result \<times> vec) option" where
  "inv_linear_augTikho_v1_sparse lib p sol0 = run_backend (solve_v1_sparse lib) () p sol0"

definition inv_linear_augTikho_chol ::
  "'f numlib \<Rightarrow> bargs \<Rightarrow> vec \<Rightarrow> (error + result \<times> vec) option" where
  "inv_linear_augTikho_chol lib p sol0 = run_backend (solve_chol lib) () p sol0"

text \<open>\<^verbatim>\<open>factor = None\<close> stands before the loop, inside the function.\<close>

definition inv_linear_augTikho_chol_sparse ::
  "'f numlib \<Rightarrow> bargs \<Rightarrow> vec \<Rightarrow> (error + result \<times> vec) option" where
  "inv_linear_augTikho_chol_sparse lib p sol0 =
     run_backend (solve_chol_sparse lib) None p sol0"

section \<open>The time loop\<close>

text \<open>
  \<^verbatim>\<open>kwdargs\<close> comes from \<^verbatim>\<open>_inversions_checks._compute_check\<close>, which is not among the
  sources; it is passed on to the backend as it is. The record holds the keys a backend
  reads, and \<^verbatim>\<open>maxiter\<close>.
\<close>

record kwdargs =
  kw_a0 :: real
  kw_b0 :: real
  kw_a1 :: real
  kw_b1 :: real
  kw_d :: real
  kw_maxiter :: int
  kw_conv_reg :: bool
  kw_nbs_fixed :: bool

type_synonym backend = "bargs \<Rightarrow> vec \<Rightarrow> (error + result \<times> vec) option"

text \<open>
  The arguments of \<^verbatim>\<open>_compute_inv_loop\<close> that the loop only reads (\<open>loop_env\<close>) and
  those it writes (\<open>loop_state\<close>). \<^verbatim>\<open>Tn\<close>, \<^verbatim>\<open>TTn\<close>, \<^verbatim>\<open>Tyn\<close> and \<^verbatim>\<open>sol0\<close> are arrays
  written in place; \<^verbatim>\<open>mu0\<close> is a local variable. The output arrays \<^verbatim>\<open>sol\<close>, \<^verbatim>\<open>mu\<close>,
  \<^verbatim>\<open>chi2n\<close>, \<^verbatim>\<open>regularity\<close>, \<^verbatim>\<open>niter\<close>, \<^verbatim>\<open>spec\<close> have one slot per time sample, written
  once, at sample \<open>ii\<close>, in the order of the samples: \<open>ls_out\<close> is the list of the
  slots written so far. \<open>le_sol_width\<close> is the length of a row of \<^verbatim>\<open>sol\<close>.
\<close>

record loop_env =
  le_func :: backend
  le_matrix :: mat
  le_R :: mat
  le_precond :: "mat option"
  le_data_n :: mat
  le_sigma :: mat
  le_conv_crit :: real
  le_sparse :: bool
  le_chain :: bool
  le_kwdargs :: kwdargs
  le_sol_width :: nat

record loop_state =
  ls_Tn :: mat
  ls_TTn :: mat
  ls_Tyn :: vec
  ls_sol0 :: vec
  ls_mu0 :: real
  ls_out :: "result list"

definition scale_rows_dense :: "mat \<Rightarrow> vec \<Rightarrow> error + mat" where
  \<comment> \<open>\<^verbatim>\<open>matrix / s[:, None]\<close>\<close>
  "scale_rows_dense M s =
     (if length s = length M
      then sequenceE (map2 (\<lambda>row si. sequenceE (map (\<lambda>x. fdiv x si) row)) M s)
      else Inl ShapeError)"

definition scale_rows_sparse :: "mat \<Rightarrow> vec \<Rightarrow> error + mat" where
  \<comment> \<open>\<^verbatim>\<open>scpsp.diags(1./s).dot(matrix)\<close>\<close>
  "scale_rows_sparse M s =
     (if length s = length M
      then sequenceE (map2 (\<lambda>row si. bindE (fdiv 1 si) (\<lambda>c. Inr (map ((*) c) row))) M s)
      else Inl ShapeError)"

definition assign_mat :: "mat \<Rightarrow> mat \<Rightarrow> error + mat" where
  \<comment> \<open>\<^verbatim>\<open>dst[...] = src\<close>: the new content of \<open>dst\<close>\<close>
  "assign_mat dst src =
     (if map length src = map length dst then Inr src else Inl ShapeError)"

text \<open>
  The head of the loop body, in the dense branch
  \<^verbatim>\<open>
            if sigma.shape[0] > 1:
                Tn[...] = matrix / sigma[ii, :][:, None]
                TTn[...] = Tn.T.dot(Tn)
            Tyn[:] = Tn.T.dot(data_n[ii, :])
  \<close>
  and in the sparse one
  \<^verbatim>\<open>
            if sigma.shape[0] > 1:
                Tn.data = scpsp.diags(1./sigma[ii, :]).dot(matrix).data
                TTn.data = Tn.T.dot(Tn).data
            Tyn[:] = Tn.T.dot(data_n[ii, :])
  \<close>
  The two branches of \<^verbatim>\<open>if sparse:\<close> are the same loop but for these lines.
\<close>

definition rebuild :: "loop_env \<Rightarrow> nat \<Rightarrow> loop_state \<Rightarrow> error + loop_state" where
  "rebuild env ii st =
     (if 1 < length (le_sigma env) then
        bindE (getitem (le_sigma env) ii) (\<lambda>sg.
        if le_sparse env then
          bindE (scale_rows_sparse (le_matrix env) sg) (\<lambda>Tn.
            Inr (st\<lparr>ls_Tn := Tn, ls_TTn := gram Tn\<rparr>))
        else
          bindE (scale_rows_dense (le_matrix env) sg) (\<lambda>X.
          bindE (assign_mat (ls_Tn st) X) (\<lambda>Tn.
          bindE (assign_mat (ls_TTn st) (gram Tn)) (\<lambda>TTn.
            Inr (st\<lparr>ls_Tn := Tn, ls_TTn := TTn\<rparr>)))))
      else Inr st)"

definition intermediates :: "loop_env \<Rightarrow> nat \<Rightarrow> loop_state \<Rightarrow> error + loop_state" where
  "intermediates env ii st =
     bindE (rebuild env ii st) (\<lambda>st1.
     bindE (getitem (le_data_n env) ii) (\<lambda>y.
     bindE (tdot (ls_Tn st1) y) (\<lambda>Ty.
     bindE (assign_vec (length (ls_Tyn st1)) Ty) (\<lambda>Tyn.
       Inr (st1\<lparr>ls_Tyn := Tyn\<rparr>)))))"

text \<open>
  The keyword arguments of the call \<^verbatim>\<open>func(Tn=Tn, TTn=TTn, ..., **kwdargs)\<close>, with
  \<^verbatim>\<open>nt, nchan = data_n.shape\<close> and \<^verbatim>\<open>nbs = R.shape[0]\<close>.
\<close>

definition func_args :: "loop_env \<Rightarrow> loop_state \<Rightarrow> vec \<Rightarrow> bargs" where
  "func_args env st yn =
     \<lparr>arg_Tn = ls_Tn st, arg_TTn = ls_TTn st, arg_Tyn = ls_Tyn st, arg_R = le_R env,
      arg_yn = yn, arg_nchan = ncols (le_data_n env), arg_nbs = length (le_R env),
      arg_mu0 = ls_mu0 st, arg_conv_crit = le_conv_crit env,
      arg_a0 = kw_a0 (le_kwdargs env), arg_b0 = kw_b0 (le_kwdargs env),
      arg_a1 = kw_a1 (le_kwdargs env), arg_b1 = kw_b1 (le_kwdargs env),
      arg_d = kw_d (le_kwdargs env), arg_maxiter = kw_maxiter (le_kwdargs env),
      arg_conv_reg = kw_conv_reg (le_kwdargs env),
      arg_nbs_fixed = kw_nbs_fixed (le_kwdargs env),
      arg_chain = le_chain env, arg_precond = le_precond env\<rparr>"

text \<open>
  After the call, with \<open>sol0\<close> the content of the array \<^verbatim>\<open>sol0\<close> as the backend left it:
  \<^verbatim>\<open>
            (sol[ii, :], mu[ii], chi2n[ii], regularity[ii], niter[ii], spec[ii]) = func(...)
            if chain:
                sol0[:] = sol[ii, :]
            mu0 = mu[ii]
  \<close>
\<close>

definition post :: "loop_env \<Rightarrow> loop_state \<Rightarrow> result \<Rightarrow> vec \<Rightarrow> error + loop_state" where
  "post env st res sol0 =
     bindE (assign_vec (le_sol_width env) (r_sol res)) (\<lambda>row.
     bindE (if le_chain env then assign_vec (length sol0) row else Inr sol0) (\<lambda>s0.
       Inr (st\<lparr>ls_sol0 := s0, ls_mu0 := r_mu res,
               ls_out := ls_out st @ [res\<lparr>r_sol := row\<rparr>]\<rparr>)))"

definition loop_step :: "loop_env \<Rightarrow> nat \<Rightarrow> loop_state \<Rightarrow> (error + loop_state) option" where
  "loop_step env ii st =
     (case intermediates env ii st of
        Inl e \<Rightarrow> Some (Inl e)
      | Inr st1 \<Rightarrow>
          (case getitem (le_data_n env) ii of
             Inl e \<Rightarrow> Some (Inl e)
           | Inr yn \<Rightarrow>
               (case le_func env (func_args env st1 yn) (ls_sol0 st1) of
                  None \<Rightarrow> None
                | Some (Inl e) \<Rightarrow> Some (Inl e)
                | Some (Inr (res, sol0)) \<Rightarrow> Some (post env st1 res sol0))))"

fun run_samples :: "loop_env \<Rightarrow> nat list \<Rightarrow> loop_state \<Rightarrow> (error + loop_state) option" where
  "run_samples env [] st = Some (Inr st)"
| "run_samples env (ii # iis) st =
     (case loop_step env ii st of
        None \<Rightarrow> None
      | Some (Inl e) \<Rightarrow> Some (Inl e)
      | Some (Inr st') \<Rightarrow> run_samples env iis st')"

text \<open>\<^verbatim>\<open>for ii in range(0, nt):\<close> with \<^verbatim>\<open>nt, nchan = data_n.shape\<close>\<close>

definition compute_inv_loop :: "loop_env \<Rightarrow> loop_state \<Rightarrow> (error + loop_state) option" where
  "compute_inv_loop env st = run_samples env [0..<length (le_data_n env)] st"

section \<open>The orchestrator\<close>

text \<open>
  \<^verbatim>\<open>compute_inversions\<close> begins with \<^verbatim>\<open>_inversions_checks._compute_check\<close>, which is not
  among the sources. The model starts after it, from the values it returns that the
  rest of the function reads, together with the two entries of the collection that are
  read when cropping: the shape of the bsplines and their crop mask.
\<close>

record checked =
  ck_data :: mat
  ck_sigma :: mat
  ck_opmat :: "mat list"
  ck_conv_crit :: real
  ck_operator :: string
  ck_sparse :: bool
  ck_matrix :: mat
  ck_crop :: bool
  ck_chain :: bool
  ck_method :: string
  ck_solver :: string
  ck_kwdargs :: kwdargs
  ck_store :: bool
  ck_shapebs :: "nat \<times> nat"
  ck_cropbs :: "bool list list"

text \<open>
  \<^verbatim>\<open>func = eval(method)\<close>: the names the module defines are the four backends; any other
  name is taken to be unbound.
\<close>

definition eval_method :: "'f numlib \<Rightarrow> string \<Rightarrow> error + backend" where
  "eval_method lib name =
     (if name = ''inv_linear_augTikho_v1'' then Inr (inv_linear_augTikho_v1 lib)
      else if name = ''inv_linear_augTikho_v1_sparse''
        then Inr (inv_linear_augTikho_v1_sparse lib)
      else if name = ''inv_linear_augTikho_chol'' then Inr (inv_linear_augTikho_chol lib)
      else if name = ''inv_linear_augTikho_chol_sparse''
        then Inr (inv_linear_augTikho_chol_sparse lib)
      else Inl NameError)"

definition vec_div :: "vec \<Rightarrow> vec \<Rightarrow> error + vec" where
  "vec_div x s =
     (if length x = length s then sequenceE (map2 fdiv x s) else Inl ShapeError)"

definition div_rows :: "mat \<Rightarrow> mat \<Rightarrow> error + mat" where
  \<comment> \<open>\<^verbatim>\<open>data / sigma\<close>, where \<^verbatim>\<open>sigma\<close> has as many rows as \<^verbatim>\<open>data\<close>, or one\<close>
  "div_rows dat sig =
     (if length sig = length dat then sequenceE (map2 vec_div dat sig)
      else if length sig = 1 then sequenceE (map (\<lambda>row. vec_div row (hd sig)) dat)
      else Inl ShapeError)"

definition col_means :: "mat \<Rightarrow> error + vec" where
  \<comment> \<open>\<^verbatim>\<open>np.nanmean(sigma, axis=0)\<close>\<close>
  "col_means S =
     (if S = [] then Inl NonFinite
      else sequenceE (map (\<lambda>j. mean (col S j)) [0..<ncols S]))"

text \<open>
  \<^verbatim>\<open>
    if sparse is True:
        Tn = scpsp.diags(1./np.nanmean(sigma, axis=0)).dot(matrix)
        TTn = Tn.T.dot(Tn)
        if solver != 'spsolve':
            precond = scpsp.linalg.inv(TTn + mu0*R)
    else:
        Tn = matrix / np.nanmean(sigma, axis=0)[:, None]
        TTn = Tn.T.dot(Tn)
  \<close>
  The result is \<open>(Tn, TTn, precond)\<close>.
\<close>

definition initial_build ::
  "'f numlib \<Rightarrow> bool \<Rightarrow> string \<Rightarrow> mat \<Rightarrow> mat \<Rightarrow> mat \<Rightarrow> real
     \<Rightarrow> error + mat \<times> mat \<times> mat option" where
  "initial_build lib sparse solver matrix sig R mu0 =
     bindE (col_means sig) (\<lambda>m.
     if sparse then
       bindE (scale_rows_sparse matrix m) (\<lambda>Tn.
       if solver \<noteq> ''spsolve'' then
         bindE (mat_add (gram Tn) (mat_scale mu0 R)) (\<lambda>A.
         bindE (spinv lib A) (\<lambda>P. Inr (Tn, gram Tn, Some P)))
       else Inr (Tn, gram Tn, None))
     else
       bindE (scale_rows_dense matrix m) (\<lambda>Tn. Inr (Tn, gram Tn, None)))"

text \<open>
  \<^verbatim>\<open>sol0 = np.full((nbs,), np.nanmean(data[0, :]) / matrix.mean())\<close>
\<close>

definition initial_sol0 :: "mat \<Rightarrow> mat \<Rightarrow> error + vec" where
  "initial_sol0 dat matrix =
     bindE (getitem dat 0) (\<lambda>d0.
     bindE (mean d0) (\<lambda>md.
     bindE (mean (concat matrix)) (\<lambda>mm.
     bindE (fdiv md mm) (\<lambda>v.
       Inr (replicate (ncols matrix) v)))))"

text \<open>
  Lines 92 to 128: everything between the check and the call of the time loop. \<^verbatim>\<open>Tyn\<close>
  is allocated full of nan and written before it is read; the model allocates zeros.
\<close>

definition prepare ::
  "'f numlib \<Rightarrow> checked \<Rightarrow> backend \<Rightarrow> error + loop_env \<times> loop_state" where
  "prepare lib ck func =
     bindE (div_rows (ck_data ck) (ck_sigma ck)) (\<lambda>data_n.
     bindE (select_R (ck_operator ck) (ck_opmat ck)) (\<lambda>R.
     bindE (initial_build lib (ck_sparse ck) (ck_solver ck) (ck_matrix ck) (ck_sigma ck) R 1)
       (\<lambda>(Tn, TTn, precond).
     bindE (initial_sol0 (ck_data ck) (ck_matrix ck)) (\<lambda>sol0.
       Inr (\<lparr>le_func = func, le_matrix = ck_matrix ck, le_R = R, le_precond = precond,
             le_data_n = data_n, le_sigma = ck_sigma ck, le_conv_crit = ck_conv_crit ck,
             le_sparse = ck_sparse ck, le_chain = ck_chain ck,
             le_kwdargs = ck_kwdargs ck, le_sol_width = ncols (ck_matrix ck)\<rparr>,
            \<lparr>ls_Tn = Tn, ls_TTn = TTn, ls_Tyn = replicate (ncols (ck_matrix ck)) 0,
             ls_sol0 = sol0, ls_mu0 = 1, ls_out = []\<rparr>)))))"

subsection \<open>Reshaping the cropped solution\<close>

text \<open>
  \<^verbatim>\<open>
    if crop is True:
        shapebs = coll.dobj['bsplines'][keybs]['shape']
        shapesol = tuple(np.r_[nt, shapebs])
        sol_full = np.zeros(shapesol, dtype=float)
        cropbs = coll.ddata[coll.dobj['bsplines'][keybs]['crop']]['data']
        cropbsflat = cropbs.ravel(order='F')
        iR = np.tile(np.arange(0, shapebs[0]), shapebs[1])[cropbsflat]
        iZ = np.repeat(np.arange(0, shapebs[1]), shapebs[0])[cropbsflat]
        sol_full[:, iR, iZ] = sol
  \<close>
\<close>

definition ravel_F :: "'a list list \<Rightarrow> 'a list" where
  \<comment> \<open>\<^verbatim>\<open>A.ravel(order='F')\<close>: column after column\<close>
  "ravel_F A = concat (map (\<lambda>j. map (\<lambda>r. r ! j) A) [0..<ncols A])"

definition tile :: "'a list \<Rightarrow> nat \<Rightarrow> 'a list" where
  "tile xs n = concat (replicate n xs)"

definition repeat_each :: "'a list \<Rightarrow> nat \<Rightarrow> 'a list" where
  \<comment> \<open>\<^verbatim>\<open>np.repeat(xs, n)\<close>\<close>
  "repeat_each xs n = concat (map (replicate n) xs)"

definition bool_index :: "'a list \<Rightarrow> bool list \<Rightarrow> error + 'a list" where
  \<comment> \<open>\<^verbatim>\<open>xs[msk]\<close> for a boolean array \<open>msk\<close>\<close>
  "bool_index xs msk =
     (if length msk = length xs then Inr (map fst (filter snd (zip xs msk)))
      else Inl IndexError)"

definition zeros :: "nat \<Rightarrow> nat \<Rightarrow> mat" where
  "zeros n m = replicate n (replicate m 0)"

definition scatter :: "mat \<Rightarrow> nat list \<Rightarrow> nat list \<Rightarrow> vec \<Rightarrow> mat" where
  \<comment> \<open>\<^verbatim>\<open>g[iR, iZ] = v\<close>, entry by entry\<close>
  "scatter g iR iZ v =
     fold (\<lambda>(i, j, x) g. g[i := (g ! i)[j := x]]) (zip iR (zip iZ v)) g"

definition gather :: "mat \<Rightarrow> nat list \<Rightarrow> nat list \<Rightarrow> vec" where
  \<comment> \<open>\<^verbatim>\<open>g[iR, iZ]\<close>\<close>
  "gather g iR iZ = map2 (\<lambda>i j. g ! i ! j) iR iZ"

definition crop_indices :: "nat \<times> nat \<Rightarrow> bool list list \<Rightarrow> error + nat list \<times> nat list" where
  "crop_indices shapebs cropbs =
     bindE (bool_index (tile [0..<fst shapebs] (snd shapebs)) (ravel_F cropbs)) (\<lambda>iR.
     bindE (bool_index (repeat_each [0..<snd shapebs] (fst shapebs)) (ravel_F cropbs))
       (\<lambda>iZ. Inr (iR, iZ)))"

definition sol_full_of :: "nat \<times> nat \<Rightarrow> bool list list \<Rightarrow> mat \<Rightarrow> error + mat list" where
  "sol_full_of shapebs cropbs sol =
     bindE (crop_indices shapebs cropbs) (\<lambda>(iR, iZ).
       sequenceE (map (\<lambda>row.
         if length row = length iR
         then Inr (scatter (zeros (fst shapebs) (snd shapebs)) iR iZ row)
         else Inl ShapeError) sol))"

subsection \<open>Storing or returning\<close>

text \<open>
  With \<^verbatim>\<open>store\<close> the function hands \<^verbatim>\<open>sol_full\<close>, \<^verbatim>\<open>chi2n\<close>, \<^verbatim>\<open>mu\<close>, \<^verbatim>\<open>regularity\<close> and \<^verbatim>\<open>niter\<close>
  to the collection (whose keys and references are not modelled) and returns nothing;
  without, it ends with
  \<^verbatim>\<open>
    else:
        return sol_full, mu, chi2n, regularity, niter, spec
  \<close>
  \<^verbatim>\<open>sol_full\<close> is assigned under \<^verbatim>\<open>if crop is True:\<close> only.
\<close>

datatype outcome =
    Returned "mat list" "real list" "real list" "real list" "nat list" "real list list"
  | Stored "mat list" "real list" "real list" "real list" "nat list"

definition format_output :: "checked \<Rightarrow> result list \<Rightarrow> error + outcome" where
  "format_output ck out =
     bindE (if ck_crop ck
            then bindE (sol_full_of (ck_shapebs ck) (ck_cropbs ck) (map r_sol out))
                   (\<lambda>g. Inr (Some g))
            else Inr None) (\<lambda>sol_full.
     if ck_store ck then
       (case sol_full of
          None \<Rightarrow> Inl UnboundLocalError
        | Some g \<Rightarrow> Inr (Stored g (map r_chi2n out) (map r_mu out) (map r_reg out)
                       (map r_niter out)))
     else
       (case sol_full of
          None \<Rightarrow> Inl UnboundLocalError
        | Some g \<Rightarrow> Inr (Returned g (map r_mu out) (map r_chi2n out) (map r_reg out)
                       (map r_niter out) (map r_spec out))))"

definition compute_inversions :: "'f numlib \<Rightarrow> checked \<Rightarrow> (error + outcome) option" where
  "compute_inversions lib ck =
     (case eval_method lib (ck_method ck) of
        Inl e \<Rightarrow> Some (Inl e)
      | Inr func \<Rightarrow>
          (case prepare lib ck func of
             Inl e \<Rightarrow> Some (Inl e)
           | Inr (env, st0) \<Rightarrow>
               (case compute_inv_loop env st0 of
                  None \<Rightarrow> None
                | Some (Inl e) \<Rightarrow> Some (Inl e)
                | Some (Inr st) \<Rightarrow> Some (format_output ck (ls_out st)))))"

section \<open>A library instance and inputs for evaluation\<close>

text \<open>
  To run the model on concrete inputs the solvers need an instance. \<open>lib1\<close> solves
  systems of one equation exactly. Its CHOLMOD factor of \<open>[[a]]\<close> is the pair of the
  number of in-place updates the object has undergone since it was built and the
  coefficient \<open>a\<close>.
\<close>

definition solve1 :: "mat \<Rightarrow> vec \<Rightarrow> error + vec" where
  "solve1 A b =
     (case A of
        [[a]] \<Rightarrow> (case b of [y] \<Rightarrow> if a = 0 then Inl LinAlgError else Inr [y / a]
                    | _ \<Rightarrow> Inl ShapeError)
      | _ \<Rightarrow> Inl LinAlgError)"

definition lib1 :: "(nat \<times> real) numlib" where
  "lib1 =
     \<lparr>scplin_solve = (\<lambda>a. solve1),
      scplin_cholesky =
        (\<lambda>A. case A of [[a]] \<Rightarrow> if 0 < a then Inr [[a]] else Inl LinAlgError
                | _ \<Rightarrow> Inl LinAlgError),
      scplin_cho_solve = solve1,
      spsolve = solve1,
      spinv =
        (\<lambda>A. case A of [[a]] \<Rightarrow> if a = 0 then Inl LinAlgError else Inr [[1 / a]]
                | _ \<Rightarrow> Inl LinAlgError),
      cholmod_cholesky =
        (\<lambda>A. case A of [[a]] \<Rightarrow> if 0 < a then Inr (0, a) else Inl LinAlgError
                | _ \<Rightarrow> Inl LinAlgError),
      cholesky_inplace =
        (\<lambda>f A. case A of [[a]] \<Rightarrow> if 0 < a then ((Suc (fst f), a), None)
                                   else (f, Some LinAlgError)
                  | _ \<Rightarrow> (f, Some LinAlgError)),
      solve_A = (\<lambda>f b. solve1 [[snd f]] b)\<rparr>"

text \<open>
  One channel, one basis function, \<open>Tn = R = [[1]]\<close>, \<open>yn = [1]\<close>. From \<open>mu0 = 1\<close> and
  \<open>sol0 = [1]\<close> the first pass gives \<open>sol = 1/2\<close>, \<open>mu1 = 8\<close>, \<open>conv = 7/8\<close>; the second
  \<open>sol = 1/9\<close>, \<open>mu1 = 9153/2608\<close>, \<open>conv = 11711/9153\<close>, below \<open>conv_crit = 2\<close>.
\<close>

definition args1 :: bargs where
  "args1 =
     \<lparr>arg_Tn = [[1]], arg_TTn = [[1]], arg_Tyn = [1], arg_R = [[1]], arg_yn = [1],
      arg_nchan = 1, arg_nbs = 1, arg_mu0 = 1, arg_conv_crit = 2,
      arg_a0 = 3/2, arg_b0 = 1, arg_a1 = 3/2, arg_b1 = 1, arg_d = 1, arg_maxiter = 1,
      arg_conv_reg = True, arg_nbs_fixed = False, arg_chain = False, arg_precond = None\<rparr>"

definition result1 :: result where
  "result1 =
     \<lparr>r_sol = [1/9], r_mu = 9153/2608, r_chi2n = 64/81, r_reg = 1/81, r_niter = 2,
      r_spec = [81/113, 162/163]\<rparr>"

text \<open>
  A checked input of \<^verbatim>\<open>compute_inversions\<close> with one time sample, whose only backend
  call is the one on \<open>args1\<close>.
\<close>

definition kw1 :: kwdargs where
  "kw1 =
     \<lparr>kw_a0 = 3/2, kw_b0 = 1, kw_a1 = 3/2, kw_b1 = 1, kw_d = 1, kw_maxiter = 1,
      kw_conv_reg = True, kw_nbs_fixed = False\<rparr>"

definition ck1 :: checked where
  "ck1 =
     \<lparr>ck_data = [[1]], ck_sigma = [[1]], ck_opmat = [[[1]], [[2]]], ck_conv_crit = 2,
      ck_operator = ''D0N2'', ck_sparse = False, ck_matrix = [[1]], ck_crop = True,
      ck_chain = False, ck_method = ''inv_linear_augTikho_v1'', ck_solver = ''solve'',
      ck_kwdargs = kw1, ck_store = False, ck_shapebs = (1, 1), ck_cropbs = [[True]]\<rparr>"

text \<open>What the preparation makes of \<open>ck1\<close>: the arguments of the time loop.\<close>

definition env1 :: loop_env where
  "env1 =
     \<lparr>le_func = inv_linear_augTikho_v1 lib1, le_matrix = [[1]], le_R = [[1]],
      le_precond = None, le_data_n = [[1]], le_sigma = [[1]], le_conv_crit = 2,
      le_sparse = False, le_chain = False, le_kwdargs = kw1, le_sol_width = 1\<rparr>"

definition state1 :: loop_state where
  "state1 = \<lparr>ls_Tn = [[1]], ls_TTn = [[1]], ls_Tyn = [0], ls_sol0 = [1], ls_mu0 = 1,
     ls_out = []\<rparr>"

text \<open>
  Two time samples with a \<^verbatim>\<open>sigma\<close> that varies in time, and what the preparation
  makes of them: \<open>Tn\<close> is built from the mean of \<^verbatim>\<open>sigma\<close> over time, which is 2.
\<close>

definition ck2 :: checked where
  "ck2 = ck1\<lparr>ck_data := [[1], [1]], ck_sigma := [[1], [3]]\<rparr>"

definition env2 :: loop_env where
  "env2 = env1\<lparr>le_data_n := [[1], [1/3]], le_sigma := [[1], [3]]\<rparr>"

definition state2 :: loop_state where
  "state2 = state1\<lparr>ls_Tn := [[1/2]], ls_TTn := [[1/4]]\<rparr>"

text \<open>
  The backends that \<^verbatim>\<open>eval(method)\<close> can give.
\<close>

definition four_backends :: "'f numlib \<Rightarrow> backend set" where
  "four_backends lib =
     {inv_linear_augTikho_v1 lib, inv_linear_augTikho_v1_sparse lib,
      inv_linear_augTikho_chol lib, inv_linear_augTikho_chol_sparse lib}"

text \<open>
  The time loop of \<open>env1\<close> with a second time sample, equal to the first, and its
  state after the first sample.
\<close>

definition env3 :: loop_env where
  "env3 = env1\<lparr>le_data_n := [[1], [1]]\<rparr>"

definition state3 :: loop_state where
  "state3 = state1\<lparr>ls_Tyn := [1], ls_sol0 := [1/9], ls_mu0 := 9153/2608,
                     ls_out := [result1]\<rparr>"

text \<open>
  The sparse Cholesky backend on the two samples of \<open>env3\<close>: the variables of its
  loop after the first and after the second pass of sample 0 (\<open>mid1\<close>, \<open>final1\<close>),
  and the arguments of its call at sample 1.
\<close>

definition mid1 :: "(nat \<times> real) option iter_state" where
  "mid1 =
     \<lparr>st_sol0 = [1/2], st_mu0 = 8, st_conv = 7/8, st_niter = 1, st_mu1 = 8,
      st_out = Some \<lparr>o_sol = [1/2], o_chi2n = 1/4, o_reg = 1/4, o_tau = 8/9, o_lamb = 8/9\<rparr>,
      st_priv = Some (0, 2)\<rparr>"

definition final1 :: "(nat \<times> real) option iter_state" where
  "final1 =
     \<lparr>st_sol0 = [1/9], st_mu0 = 9153/2608, st_conv = 11711/9153, st_niter = 2,
      st_mu1 = 9153/2608,
      st_out = Some \<lparr>o_sol = [1/9], o_chi2n = 64/81, o_reg = 1/81, o_tau = 81/113,
                     o_lamb = 162/163\<rparr>,
      st_priv = Some (1, 9)\<rparr>"

definition env4 :: loop_env where
  "env4 = env3\<lparr>le_func := inv_linear_augTikho_chol_sparse lib1\<rparr>"

definition args4 :: bargs where
  "args4 = args1\<lparr>arg_mu0 := 9153/2608\<rparr>"





section \<open>Properties\<close>

subsection \<open>The derived prior constants\<close>

text \<open>
  Claim C8, as stated, gives \<open>a0bis\<close> the fixed value 600 when \<^verbatim>\<open>nbs_fixed\<close> is true.
  The code puts 1200 in the place of \<^verbatim>\<open>nbs\<close>, it does not drop \<^verbatim>\<open>a0\<close>: with
  \<open>a0 = 2\<close> the constant is 601.
\<close>

theorem a0bis_fixed_not_600: "a0bis 2 20 True \<noteq> 600"
  by (simp add: a0bis_def)

text \<open>
  Claim C8, amended: \<open>a0bis\<close> is \<open>a0 - 1 + nbs/2\<close> when \<^verbatim>\<open>nbs_fixed\<close> is false and
  \<open>a0 - 1 + 600\<close> when it is true, whatever \<^verbatim>\<open>nbs\<close>; \<open>a1bis\<close> is \<open>a1 - 1 + nchan/2\<close>.
\<close>

theorem a0bis_a1bis_values:
  "a0bis a0 nbs False = a0 - 1 + real nbs / 2
   \<and> a0bis a0 nbs True = a0 - 1 + 600
   \<and> a1bis a1 nchan = a1 - 1 + real nchan / 2"
  by (simp add: a0bis_def a1bis_def)

subsection \<open>Helpers\<close>

lemma bindE_eq_Inr: "bindE m f = Inr y \<longleftrightarrow> (\<exists>x. m = Inr x \<and> f x = Inr y)"
  by (cases m) auto

lemma iter_loop_rule:
  assumes run: "iter_loop solve p st = Some (Inr st')"
    and init: "I st"
    and step: "\<And>s s'. I s \<Longrightarrow> iter_body solve p s = Inr s' \<Longrightarrow> I s'"
  shows "I st' \<and> 2 \<le> st_niter st' \<and> st_conv st' \<le> arg_conv_crit p"
proof -
  have "\<forall>st'. solve' = solve \<longrightarrow> p' = p \<longrightarrow> I s \<longrightarrow> r = Inr st' \<longrightarrow>
          I st' \<and> 2 \<le> st_niter st' \<and> st_conv st' \<le> arg_conv_crit p"
    if "iter_loop solve' p' s = Some r" for solve' p' s r
  proof (rule iter_loop.raw_induct[OF _ that])
    fix f and sv :: "'a \<Rightarrow> mat \<Rightarrow> vec \<Rightarrow> error + vec \<times> 'a" and q s r
    assume IH: "\<And>sv q s r. f sv q s = Some r \<Longrightarrow>
        \<forall>st'. sv = solve \<longrightarrow> q = p \<longrightarrow> I s \<longrightarrow> r = Inr st' \<longrightarrow>
          I st' \<and> 2 \<le> st_niter st' \<and> st_conv st' \<le> arg_conv_crit p"
      and eq: "(if st_niter s < 2 \<or> arg_conv_crit q < st_conv s
        then (case iter_body sv q s of Inl e \<Rightarrow> Some (Inl e) | Inr st' \<Rightarrow> f sv q st')
        else Some (Inr s)) = Some r"
    show "\<forall>st'. sv = solve \<longrightarrow> q = p \<longrightarrow> I s \<longrightarrow> r = Inr st' \<longrightarrow>
          I st' \<and> 2 \<le> st_niter st' \<and> st_conv st' \<le> arg_conv_crit p"
    proof (intro allI impI)
      fix st'
      assume sv: "sv = solve" and q: "q = p" and I: "I s" and r: "r = Inr st'"
      show "I st' \<and> 2 \<le> st_niter st' \<and> st_conv st' \<le> arg_conv_crit p"
      proof (cases "st_niter s < 2 \<or> arg_conv_crit q < st_conv s")
        case True
        with eq r obtain s1 where b: "iter_body sv q s = Inr s1" and f: "f sv q s1 = Some (Inr st')"
          by (auto split: sum.splits)
        from step[OF I] b sv q have "I s1" by simp
        with IH[OF f] sv q show ?thesis by simp
      next
        case False
        with eq r I q show ?thesis by auto
      qed
    qed
  qed
  from this[OF run] init show ?thesis by simp
qed

lemma run_backend_Inr:
  "run_backend solve priv p sol0 = Some (Inr (res, s)) \<longleftrightarrow>
     (\<exists>st. iter_loop solve p (init_state p sol0 priv) = Some (Inr st)
           \<and> iter_return st = Inr (res, s))"
  by (auto simp: run_backend_def split: option.splits sum.splits)



subsection \<open>Exit of the iteration\<close>


text \<open>The run of \<open>args1\<close>, by each backend.\<close>

lemmas eval_defs = mat_add_def mat_scale_def mat_vec_def vec_sub_def vdot_def fdiv_def fpow_def
  update_hyper_def conv_of_def assign_vec_def a0bis_def a1bis_def Let_def power2_eq_square
  iter_body_def init_state_def iter_return_def run_backend_def solve1_def lib1_def

lemma run1_v1: "inv_linear_augTikho_v1 lib1 args1 [1] = Some (Inr (result1, [1/9]))"
  unfolding inv_linear_augTikho_v1_def run_backend_def
  apply (subst iter_loop.simps)
  apply (simp add: eval_defs args1_def solve_v1_def)
  apply (subst iter_loop.simps)
  apply (simp add: eval_defs args1_def solve_v1_def)
  apply (subst iter_loop.simps)
  apply (simp add: eval_defs args1_def solve_v1_def result1_def)
  done



lemma run1_chol_sparse:
  "inv_linear_augTikho_chol_sparse lib1 args1 [1] = Some (Inr (result1, [1/9]))"
  unfolding inv_linear_augTikho_chol_sparse_def run_backend_def
  apply (subst iter_loop.simps)
  apply (simp add: eval_defs args1_def solve_chol_sparse_def)
  apply (subst iter_loop.simps)
  apply (simp add: eval_defs args1_def solve_chol_sparse_def)
  apply (subst iter_loop.simps)
  apply (simp add: eval_defs args1_def solve_chol_sparse_def result1_def)
  done


subsection \<open>The regularisation operator\<close>

lemma select_R_unknown:
  "operator \<notin> {''D0N2'', ''D1N2'', ''D2N2''} \<Longrightarrow>
     select_R operator opmat = Inl (PyException ''unknown operator!'')"
  by (simp add: select_R_def)

lemma prepare_unknown:
  assumes "ck_operator ck \<notin> {''D0N2'', ''D1N2'', ''D2N2''}"
  shows "prepare lib ck func =
     (case div_rows (ck_data ck) (ck_sigma ck) of
        Inl e \<Rightarrow> Inl e | Inr dn \<Rightarrow> Inl (PyException ''unknown operator!''))"
  using select_R_unknown[OF assms] by (simp add: prepare_def split: sum.splits)

text \<open>
  Claim C3. \<^verbatim>\<open>D0N2\<close> selects \<open>opmat[0]\<close>; \<^verbatim>\<open>D1N2\<close> and \<^verbatim>\<open>D2N2\<close> both select the
  sum \<open>opmat[0] + opmat[1]\<close>; any other name raises \<^verbatim>\<open>Exception('unknown operator!')\<close>
  in the preparation, so that \<^verbatim>\<open>compute_inversions\<close> ends with an error without
  entering the time loop, whatever the backend would do.
\<close>

theorem operator_selection:
  "(opmat \<noteq> [] \<longrightarrow> select_R ''D0N2'' opmat = Inr (opmat ! 0))
   \<and> (2 \<le> length opmat \<longrightarrow>
        select_R ''D1N2'' opmat = mat_add (opmat ! 0) (opmat ! 1)
        \<and> select_R ''D2N2'' opmat = mat_add (opmat ! 0) (opmat ! 1))
   \<and> (operator \<notin> {''D0N2'', ''D1N2'', ''D2N2''} \<longrightarrow>
        select_R operator opmat = Inl (PyException ''unknown operator!'')
        \<and> (\<forall>func. \<exists>e. prepare lib (ck\<lparr>ck_operator := operator\<rparr>) func = Inl e)
        \<and> (\<exists>e. compute_inversions lib (ck\<lparr>ck_operator := operator\<rparr>) = Some (Inl e))
        \<and> (\<forall>func dn. eval_method lib (ck_method ck) = Inr func
              \<longrightarrow> div_rows (ck_data ck) (ck_sigma ck) = Inr dn
              \<longrightarrow> compute_inversions lib (ck\<lparr>ck_operator := operator\<rparr>)
                    = Some (Inl (PyException ''unknown operator!''))))"
proof (intro conjI impI)
  assume "opmat \<noteq> []"
  then show "select_R ''D0N2'' opmat = Inr (opmat ! 0)"
    by (simp add: select_R_def getitem_def)
next
  assume "2 \<le> length opmat"
  then show "select_R ''D1N2'' opmat = mat_add (opmat ! 0) (opmat ! 1)"
    and "select_R ''D2N2'' opmat = mat_add (opmat ! 0) (opmat ! 1)"
    by (auto simp: select_R_def getitem_def)
next
  assume op: "operator \<notin> {''D0N2'', ''D1N2'', ''D2N2''}"
  let ?ck = "ck\<lparr>ck_operator := operator\<rparr>"
  from op have op': "ck_operator ?ck \<notin> {''D0N2'', ''D1N2'', ''D2N2''}" by simp
  show "select_R operator opmat = Inl (PyException ''unknown operator!'')"
    by (rule select_R_unknown[OF op])
  show "\<forall>func. \<exists>e. prepare lib ?ck func = Inl e"
    by (simp add: prepare_unknown[OF op'] split: sum.splits)
  show "\<exists>e. compute_inversions lib ?ck = Some (Inl e)"
    by (cases "eval_method lib (ck_method ck)")
       (auto simp: compute_inversions_def prepare_unknown[OF op'] split: sum.splits)
  show "\<forall>func dn. eval_method lib (ck_method ck) = Inr func
              \<longrightarrow> div_rows (ck_data ck) (ck_sigma ck) = Inr dn
              \<longrightarrow> compute_inversions lib ?ck = Some (Inl (PyException ''unknown operator!''))"
    by (simp add: compute_inversions_def prepare_unknown[OF op'])
qed

lemma eval_method_v1: "eval_method lib ''inv_linear_augTikho_v1'' = Inr (inv_linear_augTikho_v1 lib)"
  by (simp add: eval_method_def)

lemma div_rows_ck1: "div_rows (ck_data ck1) (ck_sigma ck1) = Inr [[1]]"
  by (simp add: ck1_def div_rows_def vec_div_def fdiv_def)

text \<open>Witness for C3, on two components \<open>[[1]]\<close> and \<open>[[2]]\<close>.\<close>

theorem operator_selection_witness:
  "select_R ''D0N2'' [[[1]], [[2]]] = Inr [[1]]
   \<and> select_R ''D1N2'' [[[1]], [[2]]] = Inr [[3]]
   \<and> select_R ''D2N2'' [[[1]], [[2]]] = Inr [[3]]
   \<and> select_R ''D3N2'' [[[1]], [[2]]] = Inl (PyException ''unknown operator!'')
   \<and> compute_inversions lib1 (ck1\<lparr>ck_operator := ''D3N2''\<rparr>)
       = Some (Inl (PyException ''unknown operator!''))"
  using operator_selection[of "[[[1]], [[2]]]" "''D3N2''" lib1 ck1]
    eval_method_v1[of lib1] div_rows_ck1
  by (simp add: mat_add_def ck1_def)

subsection \<open>Positivity of the regularisation strength\<close>

lemma iter_body_InrE:
  assumes "iter_body solve p st = Inr st'"
  obtains A sol priv Ts r chi2n Rs reg lamb tau mu1 conv where
    "mat_add (arg_TTn p) (mat_scale (st_mu0 st) (arg_R p)) = Inr A"
    "solve (st_priv st) A (arg_Tyn p) = Inr (sol, priv)"
    "mat_vec (arg_Tn p) sol = Inr Ts"
    "vec_sub Ts (arg_yn p) = Inr r"
    "fdiv (sum_list (map (\<lambda>x. x ^ 2) r)) (real (arg_nchan p)) = Inr chi2n"
    "mat_vec (arg_R p) sol = Inr Rs"
    "vdot sol Rs = Inr reg"
    "update_hyper (a0bis (arg_a0 p) (arg_nbs p) (arg_nbs_fixed p)) (arg_b0 p)
       (a1bis (arg_a1 p) (arg_nchan p)) (arg_b1 p) (arg_d p)
       (sum_list (map (\<lambda>x. x ^ 2) r)) reg = Inr (lamb, tau, mu1)"
    "conv_of (arg_conv_reg p) (arg_nbs p) mu1 (st_mu0 st) sol (st_sol0 st) = Inr conv"
    "length sol = length (st_sol0 st)"
    "st' = \<lparr>st_sol0 = sol, st_mu0 = mu1, st_conv = conv, st_niter = st_niter st + 1,
            st_mu1 = mu1,
            st_out = Some \<lparr>o_sol = sol, o_chi2n = chi2n, o_reg = reg, o_tau = tau,
                           o_lamb = lamb\<rparr>,
            st_priv = priv\<rparr>"
  using assms unfolding iter_body_def
  by (auto simp: bindE_eq_Inr Let_def assign_vec_def split: prod.splits if_splits)









subsection \<open>The run of \<open>ck1\<close>\<close>

lemmas prep_defs = prepare_def div_rows_def vec_div_def fdiv_def select_R_def getitem_def
  initial_build_def col_means_def ncols_def col_def mean_def scale_rows_dense_def
  scale_rows_sparse_def gram_def initial_sol0_def mat_add_def mat_scale_def

lemma prepare_ck1:
  "prepare lib1 ck1 (inv_linear_augTikho_v1 lib1) = Inr (env1, state1)"
  by (simp add: prep_defs ck1_def env1_def state1_def)

lemma func_args1: "func_args env1 (state1\<lparr>ls_Tyn := [1]\<rparr>) [1] = args1"
  by (simp add: func_args_def env1_def state1_def args1_def kw1_def ncols_def)

lemma intermediates1: "intermediates env1 0 state1 = Inr (state1\<lparr>ls_Tyn := [1]\<rparr>)"
  by (simp add: intermediates_def rebuild_def env1_def state1_def getitem_def tdot_def
        ncols_def col_def assign_vec_def)

lemma loop_step1:
  "loop_step env1 0 state1 =
     Some (Inr (state1\<lparr>ls_Tyn := [1], ls_sol0 := [1/9], ls_mu0 := 9153/2608,
                       ls_out := [result1]\<rparr>))"
proof -
  have f: "le_func env1 = inv_linear_augTikho_v1 lib1" by (simp add: env1_def)
  have g: "getitem (le_data_n env1) 0 = Inr [1]" by (simp add: env1_def getitem_def)
  have s: "ls_sol0 (state1\<lparr>ls_Tyn := [1]\<rparr>) = [1]" by (simp add: state1_def)
  show ?thesis
    unfolding loop_step_def intermediates1 g
    apply (simp only: sum.case f s func_args1 run1_v1 option.case prod.case)
    apply (simp add: post_def assign_vec_def env1_def result1_def state1_def)
    done
qed

lemma loop1:
  "compute_inv_loop env1 state1 =
     Some (Inr (state1\<lparr>ls_Tyn := [1], ls_sol0 := [1/9], ls_mu0 := 9153/2608,
                       ls_out := [result1]\<rparr>))"
proof -
  have "[0..<length (le_data_n env1)] = [0]" by (simp add: env1_def)
  then show ?thesis by (simp add: compute_inv_loop_def loop_step1)
qed

lemma prepare_crop: "prepare lib (ck\<lparr>ck_crop := c\<rparr>) func = prepare lib ck func"
  by (simp add: prepare_def)

lemma compute_ck1:
  "compute_inversions lib1 ck1 =
     Some (Inr (Returned [[[1/9]]] [9153/2608] [64/81] [1/81] [2] [[81/113, 162/163]]))"
proof -
  have m: "ck_method ck1 = ''inv_linear_augTikho_v1''" by (simp add: ck1_def)
  have "format_output ck1 [result1] =
     Inr (Returned [[[1/9]]] [9153/2608] [64/81] [1/81] [2] [[81/113, 162/163]])"
    by (simp add: format_output_def ck1_def sol_full_of_def crop_indices_def bool_index_def
          tile_def repeat_each_def ravel_F_def ncols_def scatter_def zeros_def result1_def)
  then show ?thesis
    by (simp add: compute_inversions_def m eval_method_v1 prepare_ck1 loop1)
qed

subsection \<open>Returning without cropping\<close>

text \<open>
  Claim C10. With \<^verbatim>\<open>crop\<close> false and \<^verbatim>\<open>store\<close> false the function never returns a
  result: \<^verbatim>\<open>sol_full\<close> is unbound at the \<^verbatim>\<open>return\<close>, so the output stage is an
  UnboundLocalError whatever the time loop produced, and that is the outcome of every
  call whose check, preparation and time loop succeed.
\<close>

theorem no_crop_no_store_fails:
  assumes "\<not> ck_crop ck" "\<not> ck_store ck"
  shows "(\<forall>out. format_output ck out = Inl UnboundLocalError)
    \<and> (\<forall>r. compute_inversions lib ck \<noteq> Some (Inr r))
    \<and> (\<forall>func env st0 st. eval_method lib (ck_method ck) = Inr func
          \<longrightarrow> prepare lib ck func = Inr (env, st0)
          \<longrightarrow> compute_inv_loop env st0 = Some (Inr st)
          \<longrightarrow> compute_inversions lib ck = Some (Inl UnboundLocalError))"
proof -
  have fo: "format_output ck out = Inl UnboundLocalError" for out
    using assms by (simp add: format_output_def)
  show ?thesis
    by (auto simp: fo compute_inversions_def split: sum.splits option.splits)
qed

text \<open>
  Witness for C10: \<open>ck1\<close> with \<^verbatim>\<open>crop\<close> false ends in the error, after a time loop that
  succeeded; with \<^verbatim>\<open>crop\<close> true it returns.
\<close>

theorem no_crop_no_store_fails_witness:
  "\<not> ck_crop (ck1\<lparr>ck_crop := False\<rparr>) \<and> \<not> ck_store (ck1\<lparr>ck_crop := False\<rparr>)
   \<and> compute_inversions lib1 (ck1\<lparr>ck_crop := False\<rparr>) = Some (Inl UnboundLocalError)
   \<and> (\<exists>r. compute_inversions lib1 ck1 = Some (Inr r))"
proof -
  let ?ck = "ck1\<lparr>ck_crop := False\<rparr>"
  have h: "\<not> ck_crop ?ck" "\<not> ck_store ?ck" by (simp_all add: ck1_def)
  have e: "eval_method lib1 (ck_method ?ck) = Inr (inv_linear_augTikho_v1 lib1)"
    by (simp add: ck1_def eval_method_v1)
  have p: "prepare lib1 ?ck (inv_linear_augTikho_v1 lib1) = Inr (env1, state1)"
    by (simp only: prepare_crop prepare_ck1)
  from no_crop_no_store_fails[OF h, of lib1, THEN conjunct2, THEN conjunct2, rule_format,
      OF e p loop1]
  show ?thesis using h compute_ck1 by simp
qed

subsection \<open>Rebuilding \<open>Tn\<close> and \<open>TTn\<close>\<close>

lemma prepare_ck2:
  "prepare lib1 ck2 (inv_linear_augTikho_v1 lib1) = Inr (env2, state2)"
  by (simp add: prep_defs ck2_def ck1_def env2_def env1_def state2_def state1_def)

lemma intermediates2:
  "intermediates env2 0 state2 = Inr (state2\<lparr>ls_Tn := [[1]], ls_TTn := [[1]], ls_Tyn := [1]\<rparr>)"
  by (simp add: intermediates_def rebuild_def env2_def env1_def state2_def state1_def
        getitem_def scale_rows_dense_def fdiv_def assign_mat_def gram_def ncols_def col_def
        tdot_def assign_vec_def)

text \<open>
  Claim C4, as stated, has \<open>Tn\<close> and \<open>TTn\<close> reused from the initial build at the first
  sample. The test of the loop is \<^verbatim>\<open>sigma.shape[0] > 1\<close> alone, without the index: on
  \<open>ck2\<close> the initial build gives \<open>Tn = [[1/2]]\<close>, and the first sample, \<open>ii = 0\<close>,
  replaces it by \<open>matrix / sigma[0, :] = [[1]]\<close>.
\<close>

theorem first_sample_rebuilds:
  "prepare lib1 ck2 (inv_linear_augTikho_v1 lib1) = Inr (env2, state2)
   \<and> length (le_sigma env2) = 2
   \<and> ls_Tn state2 = [[1/2]] \<and> ls_TTn state2 = [[1/4]]
   \<and> intermediates env2 0 state2
       = Inr (state2\<lparr>ls_Tn := [[1]], ls_TTn := [[1]], ls_Tyn := [1]\<rparr>)
   \<and> ls_Tn (state2\<lparr>ls_Tn := [[1]], ls_TTn := [[1]], ls_Tyn := [1]\<rparr>) \<noteq> ls_Tn state2"
  using prepare_ck2 intermediates2 by (simp add: env2_def state2_def)

lemma rebuild_cases:
  assumes "rebuild env ii st = Inr st'"
  shows "(1 < length (le_sigma env) \<longrightarrow>
           ii < length (le_sigma env)
           \<and> (if le_sparse env then scale_rows_sparse (le_matrix env) (le_sigma env ! ii)
               else scale_rows_dense (le_matrix env) (le_sigma env ! ii)) = Inr (ls_Tn st')
           \<and> ls_TTn st' = gram (ls_Tn st'))
       \<and> (\<not> 1 < length (le_sigma env) \<longrightarrow> st' = st)"
  using assms
  by (auto simp: rebuild_def bindE_eq_Inr getitem_def assign_mat_def split: if_splits)

lemma intermediates_Tn:
  assumes "intermediates env ii st = Inr st'"
  obtains st1 where "rebuild env ii st = Inr st1" "ls_Tn st' = ls_Tn st1"
    "ls_TTn st' = ls_TTn st1" "ls_sol0 st' = ls_sol0 st1" "ls_mu0 st' = ls_mu0 st1"
    "ls_out st' = ls_out st1"
  using assms by (auto simp: intermediates_def bindE_eq_Inr)

lemma post_frame:
  assumes "post env st res s = Inr st'"
  shows "ls_Tn st' = ls_Tn st \<and> ls_TTn st' = ls_TTn st"
  using assms by (auto simp: post_def bindE_eq_Inr)

lemma loop_step_InrE:
  assumes "loop_step env ii st = Some (Inr st')"
  obtains st1 yn res s where "intermediates env ii st = Inr st1"
    "getitem (le_data_n env) ii = Inr yn"
    "le_func env (func_args env st1 yn) (ls_sol0 st1) = Some (Inr (res, s))"
    "post env st1 res s = Inr st'"
  using assms
  by (auto simp: loop_step_def split: sum.splits option.splits prod.splits)

lemma loop_step_frame:
  assumes "loop_step env ii st = Some (Inr st')" "\<not> 1 < length (le_sigma env)"
  shows "ls_Tn st' = ls_Tn st \<and> ls_TTn st' = ls_TTn st"
proof -
  from assms(1) obtain st1 yn res s where i: "intermediates env ii st = Inr st1"
    and p: "post env st1 res s = Inr st'"
    by (rule loop_step_InrE)
  from i obtain st0 where r: "rebuild env ii st = Inr st0"
    and e: "ls_Tn st1 = ls_Tn st0" "ls_TTn st1 = ls_TTn st0"
    by (rule intermediates_Tn)
  from rebuild_cases[OF r] assms(2) have "st0 = st" by simp
  with e post_frame[OF p] show ?thesis by simp
qed

lemma run_samples_frame:
  assumes "run_samples env iis st = Some (Inr st')" "\<not> 1 < length (le_sigma env)"
  shows "ls_Tn st' = ls_Tn st \<and> ls_TTn st' = ls_TTn st"
  using assms
proof (induction iis arbitrary: st)
  case Nil
  then show ?case by simp
next
  case (Cons ii iis)
  from Cons.prems(1) obtain st1 where s: "loop_step env ii st = Some (Inr st1)"
    and r: "run_samples env iis st1 = Some (Inr st')"
    by (auto split: option.splits sum.splits)
  from Cons.IH[OF r Cons.prems(2)] loop_step_frame[OF s Cons.prems(2)]
  show ?case by simp
qed

text \<open>
  Claim C4, amended. At every sample \<open>ii\<close>, the first included, \<open>Tn\<close> and \<open>TTn\<close> are
  recomputed from \<open>sigma[ii, :]\<close> if and only if \<^verbatim>\<open>sigma.shape[0] > 1\<close>; otherwise
  they are left as they are, so that they are the initial build through the whole
  loop.
\<close>

theorem rebuild_when_sigma_varies:
  "(intermediates env ii st = Inr st' \<longrightarrow>
      (1 < length (le_sigma env) \<longrightarrow>
         ii < length (le_sigma env)
         \<and> (if le_sparse env then scale_rows_sparse (le_matrix env) (le_sigma env ! ii)
             else scale_rows_dense (le_matrix env) (le_sigma env ! ii)) = Inr (ls_Tn st')
         \<and> ls_TTn st' = gram (ls_Tn st'))
      \<and> (\<not> 1 < length (le_sigma env) \<longrightarrow>
           ls_Tn st' = ls_Tn st \<and> ls_TTn st' = ls_TTn st))
   \<and> (\<not> 1 < length (le_sigma env) \<longrightarrow> compute_inv_loop env st = Some (Inr st'') \<longrightarrow>
        ls_Tn st'' = ls_Tn st \<and> ls_TTn st'' = ls_TTn st)"
proof (intro conjI impI)
  assume i: "intermediates env ii st = Inr st'"
  then obtain st1 where r: "rebuild env ii st = Inr st1"
    and e: "ls_Tn st' = ls_Tn st1" "ls_TTn st' = ls_TTn st1"
    by (rule intermediates_Tn)
  note c = rebuild_cases[OF r]
  {
    assume v: "1 < length (le_sigma env)"
    with c e show "ii < length (le_sigma env)" by simp
    from c e v
    show "(if le_sparse env then scale_rows_sparse (le_matrix env) (le_sigma env ! ii)
             else scale_rows_dense (le_matrix env) (le_sigma env ! ii)) = Inr (ls_Tn st')"
      by simp
    from c e v show "ls_TTn st' = gram (ls_Tn st')" by simp
  }
  {
    assume v: "\<not> 1 < length (le_sigma env)"
    with c e show "ls_Tn st' = ls_Tn st" "ls_TTn st' = ls_TTn st" by simp_all
  }
next
  assume "\<not> 1 < length (le_sigma env)" "compute_inv_loop env st = Some (Inr st'')"
  then show "ls_Tn st'' = ls_Tn st" "ls_TTn st'' = ls_TTn st"
    using run_samples_frame by (simp_all add: compute_inv_loop_def)
qed

text \<open>Witness for the amended C4: \<open>env2\<close> rebuilds, \<open>env1\<close> does not.\<close>

theorem rebuild_when_sigma_varies_witness:
  "intermediates env2 0 state2
       = Inr (state2\<lparr>ls_Tn := [[1]], ls_TTn := [[1]], ls_Tyn := [1]\<rparr>)
   \<and> 1 < length (le_sigma env2)
   \<and> scale_rows_dense (le_matrix env2) (le_sigma env2 ! 0) = Inr [[1]]
   \<and> intermediates env1 0 state1 = Inr (state1\<lparr>ls_Tyn := [1]\<rparr>)
   \<and> \<not> 1 < length (le_sigma env1)
   \<and> compute_inv_loop env1 state1 =
       Some (Inr (state1\<lparr>ls_Tyn := [1], ls_sol0 := [1/9], ls_mu0 := 9153/2608,
                         ls_out := [result1]\<rparr>))
   \<and> ls_Tn state1 = [[1]]"
  using rebuild_when_sigma_varies[of env2 0 state2
      "state2\<lparr>ls_Tn := [[1]], ls_TTn := [[1]], ls_Tyn := [1]\<rparr>" state1]
    rebuild_when_sigma_varies[of env1 0 state1 "state1\<lparr>ls_Tyn := [1]\<rparr>"
      "state1\<lparr>ls_Tyn := [1], ls_sol0 := [1/9], ls_mu0 := 9153/2608, ls_out := [result1]\<rparr>"]
    intermediates2 intermediates1 loop1
  by (simp add: env2_def env1_def state1_def)

subsection \<open>Chaining\<close>

text \<open>
  A backend reads neither \<^verbatim>\<open>chain\<close> nor any other argument outside the loop body and
  its test: two argument records on which the body and \<^verbatim>\<open>conv_crit\<close> agree give the
  same run.
\<close>

lemma iter_loop_cong_Some:
  assumes body: "\<And>s. iter_body solve p' s = iter_body solve p s"
    and crit: "arg_conv_crit p' = arg_conv_crit p"
    and run: "iter_loop solve p st = Some r"
  shows "iter_loop solve p' st = Some r"
proof -
  have "sv = solve \<longrightarrow> q = p \<longrightarrow> iter_loop solve p' s = Some r"
    if "iter_loop sv q s = Some r" for sv q s r
  proof (rule iter_loop.raw_induct[OF _ that])
    fix f and sv :: "'a \<Rightarrow> mat \<Rightarrow> vec \<Rightarrow> error + vec \<times> 'a" and q s r
    assume IH: "\<And>sv q s r. f sv q s = Some r \<Longrightarrow>
        sv = solve \<longrightarrow> q = p \<longrightarrow> iter_loop solve p' s = Some r"
      and eq: "(if st_niter s < 2 \<or> arg_conv_crit q < st_conv s
        then (case iter_body sv q s of Inl e \<Rightarrow> Some (Inl e) | Inr st' \<Rightarrow> f sv q st')
        else Some (Inr s)) = Some r"
    show "sv = solve \<longrightarrow> q = p \<longrightarrow> iter_loop solve p' s = Some r"
    proof (intro impI)
      assume sv: "sv = solve" and q: "q = p"
      show "iter_loop solve p' s = Some r"
      proof (cases "st_niter s < 2 \<or> arg_conv_crit p < st_conv s")
        case False
        with eq q crit show ?thesis by (subst iter_loop.simps) simp
      next
        case True
        show ?thesis
        proof (cases "iter_body solve p s")
          case (Inl e)
          with eq True sv q crit body show ?thesis by (subst iter_loop.simps) auto
        next
          case (Inr s1)
          with eq True sv q have "f solve p s1 = Some r" by simp
          from IH[OF this] have "iter_loop solve p' s1 = Some r" by simp
          with True Inr crit body show ?thesis by (subst iter_loop.simps) simp
        qed
      qed
    qed
  qed
  from this[OF run] show ?thesis by simp
qed

lemma iter_loop_cong:
  assumes body: "\<And>s. iter_body solve p' s = iter_body solve p s"
    and crit: "arg_conv_crit p' = arg_conv_crit p"
  shows "iter_loop solve p' st = iter_loop solve p st"
proof (cases "iter_loop solve p st")
  case (Some r)
  with iter_loop_cong_Some[OF body crit] show ?thesis by simp
next
  case None
  show ?thesis
  proof (cases "iter_loop solve p' st")
    case None
    with \<open>iter_loop solve p st = None\<close> show ?thesis by simp
  next
    case (Some r)
    from iter_loop_cong_Some[OF body[symmetric] crit[symmetric] Some]
    have "iter_loop solve p st = Some r" .
    with \<open>iter_loop solve p st = None\<close> show ?thesis by simp
  qed
qed

lemma run_backend_chain:
  "run_backend solve priv (p\<lparr>arg_chain := c\<rparr>) sol0 = run_backend solve priv p sol0"
proof -
  have "iter_loop solve (p\<lparr>arg_chain := c\<rparr>) st = iter_loop solve p st" for st
    by (rule iter_loop_cong) (simp_all add: iter_body_def)
  then show ?thesis by (simp add: run_backend_def init_state_def)
qed

text \<open>
  \<^verbatim>\<open>sol0[:] = sol[:]\<close> in the loop body writes into the caller's array: when a backend
  returns, the caller's \<^verbatim>\<open>sol0\<close> holds the returned solution.
\<close>

lemma run_backend_writes_back:
  assumes "run_backend solve priv p sol0 = Some (Inr (res, s))"
  shows "s = r_sol res"
proof -
  let ?I = "\<lambda>st. \<forall>out. st_out st = Some out \<longrightarrow> o_sol out = st_sol0 st"
  from assms obtain st where loop: "iter_loop solve p (init_state p sol0 priv) = Some (Inr st)"
    and ret: "iter_return st = Inr (res, s)"
    by (auto simp: run_backend_Inr)
  have "?I (init_state p sol0 priv)" by (simp add: init_state_def)
  moreover have "?I s'" if "iter_body solve p s0 = Inr s'" for s0 s'
    using that by (rule iter_body_InrE) simp
  ultimately have "?I st" using iter_loop_rule[OF loop, of ?I] by blast
  with ret show ?thesis by (auto simp: iter_return_def split: option.splits)
qed

lemma four_backends_E:
  assumes "func \<in> four_backends lib"
  shows "func (p\<lparr>arg_chain := c\<rparr>) sol0 = func p sol0"
    and "func p sol0 = Some (Inr (res, s)) \<Longrightarrow> s = r_sol res"
  using assms
  by (auto simp: four_backends_def inv_linear_augTikho_v1_def inv_linear_augTikho_v1_sparse_def
      inv_linear_augTikho_chol_def inv_linear_augTikho_chol_sparse_def run_backend_chain
      dest: run_backend_writes_back)

lemma eval_method_four: "eval_method lib name = Inr func \<Longrightarrow> func \<in> four_backends lib"
  by (auto simp: eval_method_def four_backends_def split: if_splits)

lemma func_args_chain:
  "func_args (env\<lparr>le_chain := c\<rparr>) st yn = (func_args env st yn)\<lparr>arg_chain := c\<rparr>"
  by (simp add: func_args_def)

lemma intermediates_chain: "intermediates (env\<lparr>le_chain := c\<rparr>) ii st = intermediates env ii st"
  by (simp add: intermediates_def rebuild_def cong: if_cong)

lemma post_chain:
  assumes "s = r_sol res"
  shows "post (env\<lparr>le_chain := c\<rparr>) st res s = post env st res s"
  using assms by (cases "le_chain env"; cases c) (auto simp: post_def assign_vec_def)

lemma loop_step_chain:
  assumes "le_func env \<in> four_backends lib"
  shows "loop_step (env\<lparr>le_chain := c\<rparr>) ii st = loop_step env ii st"
proof -
  have "(case le_func env ((func_args env st1 yn)\<lparr>arg_chain := c\<rparr>) (ls_sol0 st1) of
           None \<Rightarrow> None | Some (Inl e) \<Rightarrow> Some (Inl e)
         | Some (Inr (res, sol0)) \<Rightarrow> Some (post (env\<lparr>le_chain := c\<rparr>) st1 res sol0))
      = (case le_func env (func_args env st1 yn) (ls_sol0 st1) of
           None \<Rightarrow> None | Some (Inl e) \<Rightarrow> Some (Inl e)
         | Some (Inr (res, sol0)) \<Rightarrow> Some (post env st1 res sol0))" for st1 yn
    using four_backends_E[OF assms]
    by (auto split: option.splits sum.splits simp: post_chain)
  then show ?thesis
    by (simp add: loop_step_def intermediates_chain func_args_chain split: sum.splits)
qed

lemma run_samples_chain:
  assumes "le_func env \<in> four_backends lib"
  shows "run_samples (env\<lparr>le_chain := c\<rparr>) iis st = run_samples env iis st"
proof (induction iis arbitrary: st)
  case Nil
  show ?case by simp
next
  case (Cons ii iis)
  show ?case
    by (simp add: loop_step_chain[OF assms] Cons.IH split: option.splits sum.splits)
qed


lemma bindE_assoc: "bindE (bindE m f) g = bindE m (\<lambda>x. bindE (f x) g)"
  by (cases m) auto

lemma prepare_chain:
  "prepare lib (ck\<lparr>ck_chain := c\<rparr>) func =
     bindE (prepare lib ck func) (\<lambda>(env, st0). Inr (env\<lparr>le_chain := c\<rparr>, st0))"
  by (simp add: prepare_def bindE_assoc case_prod_unfold)

lemma prepare_func: "prepare lib ck func = Inr (env, st0) \<Longrightarrow> le_func env = func"
  by (auto simp: prepare_def bindE_eq_Inr)

lemma format_output_chain: "format_output (ck\<lparr>ck_chain := c\<rparr>) out = format_output ck out"
  by (simp add: format_output_def)

lemma compute_inversions_chain:
  "compute_inversions lib (ck\<lparr>ck_chain := c\<rparr>) = compute_inversions lib ck"
proof (cases "eval_method lib (ck_method ck)")
  case (Inl e)
  then show ?thesis by (simp add: compute_inversions_def)
next
  case (Inr func)
  note f = eval_method_four[OF Inr]
  show ?thesis
  proof (cases "prepare lib ck func")
    case (Inl e)
    with Inr show ?thesis by (simp add: compute_inversions_def prepare_chain)
  next
    case (Inr a)
    obtain env st0 where a: "a = (env, st0)" by (cases a)
    from prepare_func[OF Inr[unfolded a]] f have "le_func env \<in> four_backends lib" by simp
    from run_samples_chain[OF this]
    have "compute_inv_loop (env\<lparr>le_chain := c\<rparr>) st0 = compute_inv_loop env st0"
      by (simp add: compute_inv_loop_def)
    with \<open>eval_method lib (ck_method ck) = Inr func\<close> Inr a show ?thesis
      by (simp add: compute_inversions_def prepare_chain format_output_chain
            split: option.splits sum.splits)
  qed
qed

lemma loop_step_hands_solution:
  assumes "le_func env \<in> four_backends lib" "loop_step env ii st = Some (Inr st')"
  shows "ls_out st' \<noteq> [] \<and> ls_sol0 st' = r_sol (last (ls_out st'))"
proof -
  from assms(2) obtain st1 yn res s where
    c: "le_func env (func_args env st1 yn) (ls_sol0 st1) = Some (Inr (res, s))"
    and p: "post env st1 res s = Inr st'"
    by (rule loop_step_InrE)
  from four_backends_E(2)[OF assms(1) c] have "s = r_sol res" .
  with p show ?thesis
    by (auto simp: post_def bindE_eq_Inr assign_vec_def split: if_splits)
qed

text \<open>
  Claim C2 says that with \<^verbatim>\<open>chain\<close> false the next sample does not start from the
  solution of the sample before. The code does start from it, \<^verbatim>\<open>chain\<close> or not: the
  flag has no effect on \<^verbatim>\<open>compute_inversions\<close>, nor on any step of the time loop, and
  after every step \<^verbatim>\<open>sol0\<close> is the solution just stored.
\<close>

theorem chain_flag_has_no_effect:
  "compute_inversions lib (ck\<lparr>ck_chain := False\<rparr>) = compute_inversions lib (ck\<lparr>ck_chain := True\<rparr>)
   \<and> (le_func env \<in> four_backends lib \<longrightarrow>
        loop_step (env\<lparr>le_chain := False\<rparr>) ii st = loop_step (env\<lparr>le_chain := True\<rparr>) ii st
        \<and> (\<forall>st'. loop_step (env\<lparr>le_chain := False\<rparr>) ii st = Some (Inr st') \<longrightarrow>
              ls_out st' \<noteq> [] \<and> ls_sol0 st' = r_sol (last (ls_out st'))))"
proof (intro conjI impI allI)
  show "compute_inversions lib (ck\<lparr>ck_chain := False\<rparr>)
      = compute_inversions lib (ck\<lparr>ck_chain := True\<rparr>)"
    by (simp only: compute_inversions_chain)
next
  assume f: "le_func env \<in> four_backends lib"
  then show "loop_step (env\<lparr>le_chain := False\<rparr>) ii st = loop_step (env\<lparr>le_chain := True\<rparr>) ii st"
    by (simp only: loop_step_chain)
  fix st' assume "loop_step (env\<lparr>le_chain := False\<rparr>) ii st = Some (Inr st')"
  with f have "loop_step env ii st = Some (Inr st')" by (simp only: loop_step_chain)
  from loop_step_hands_solution[OF f this]
  show "ls_out st' \<noteq> []" "ls_sol0 st' = r_sol (last (ls_out st'))" by simp_all
qed

lemma loop_step3:
  "loop_step env3 0 state1 =
     Some (Inr (state1\<lparr>ls_Tyn := [1], ls_sol0 := [1/9], ls_mu0 := 9153/2608,
                       ls_out := [result1]\<rparr>))"
proof -
  have f: "le_func env3 = inv_linear_augTikho_v1 lib1" by (simp add: env3_def env1_def)
  have g: "getitem (le_data_n env3) 0 = Inr [1]" by (simp add: env3_def getitem_def)
  have s: "ls_sol0 (state1\<lparr>ls_Tyn := [1]\<rparr>) = [1]" by (simp add: state1_def)
  have i: "intermediates env3 0 state1 = Inr (state1\<lparr>ls_Tyn := [1]\<rparr>)"
    by (simp add: intermediates_def rebuild_def env3_def env1_def state1_def getitem_def
        tdot_def ncols_def col_def assign_vec_def)
  have a: "func_args env3 (state1\<lparr>ls_Tyn := [1]\<rparr>) [1] = args1"
    by (simp add: func_args_def env3_def env1_def state1_def args1_def kw1_def ncols_def)
  show ?thesis
    unfolding loop_step_def i g
    apply (simp only: sum.case f s a run1_v1 option.case prod.case)
    apply (simp add: post_def assign_vec_def env3_def env1_def result1_def state1_def)
    done
qed

text \<open>
  The code at a failing input of C2: two samples, \<^verbatim>\<open>chain\<close> false, \<open>sol0 = [1]\<close> at the
  start. After sample 0 the array \<^verbatim>\<open>sol0\<close> holds \<open>[1/9]\<close>, the solution stored in
  \<open>sol[0, :]\<close>, and sample 1 calls the backend on it.
\<close>

theorem chain_false_hands_solution:
  "le_chain env3 = False \<and> length (le_data_n env3) = 2 \<and> ls_sol0 state1 = [1]
   \<and> loop_step env3 0 state1 = Some (Inr state3)
   \<and> map r_sol (ls_out state3) = [[1/9]]
   \<and> intermediates env3 1 state3 = Inr state3
   \<and> ls_sol0 state3 = [1/9]"
proof -
  have "intermediates env3 1 state3 = Inr state3"
    by (simp add: intermediates_def rebuild_def env3_def env1_def state3_def state1_def
        getitem_def tdot_def ncols_def col_def assign_vec_def)
  with loop_step3 show ?thesis
    by (simp add: env3_def env1_def state3_def state1_def result1_def)
qed

text \<open>Witness: the first step of \<open>env3\<close>, with and without \<^verbatim>\<open>chain\<close>.\<close>

theorem chain_flag_has_no_effect_witness:
  "le_func env3 \<in> four_backends lib1
   \<and> loop_step (env3\<lparr>le_chain := True\<rparr>) 0 state1 =
       Some (Inr (state1\<lparr>ls_Tyn := [1], ls_sol0 := [1/9], ls_mu0 := 9153/2608,
                         ls_out := [result1]\<rparr>))
   \<and> loop_step (env3\<lparr>le_chain := False\<rparr>) 0 state1 =
       Some (Inr (state1\<lparr>ls_Tyn := [1], ls_sol0 := [1/9], ls_mu0 := 9153/2608,
                         ls_out := [result1]\<rparr>))"
proof -
  have f: "le_func env3 \<in> four_backends lib1"
    by (simp add: env3_def env1_def four_backends_def)
  have e: "env3\<lparr>le_chain := False\<rparr> = env3" by (simp add: env3_def env1_def)
  from chain_flag_has_no_effect[of lib1 ck1 env3 0 state1, THEN conjunct2, rule_format, OF f,
      THEN conjunct1] loop_step3 f e
  show ?thesis by simp
qed

subsection \<open>The factorisation of the sparse Cholesky backend\<close>

lemma loop1_chol_sparse:
  "iter_loop (solve_chol_sparse lib1) args1 (init_state args1 [1] None) = Some (Inr final1)"
  apply (subst iter_loop.simps)
  apply (simp add: eval_defs args1_def solve_chol_sparse_def)
  apply (subst iter_loop.simps)
  apply (simp add: eval_defs args1_def solve_chol_sparse_def)
  apply (subst iter_loop.simps)
  apply (simp add: eval_defs args1_def solve_chol_sparse_def final1_def)
  done

lemma loop_step4: "loop_step env4 0 state1 = Some (Inr state3)"
proof -
  have f: "le_func env4 = inv_linear_augTikho_chol_sparse lib1" by (simp add: env4_def)
  have g: "getitem (le_data_n env4) 0 = Inr [1]"
    by (simp add: env4_def env3_def getitem_def)
  have s: "ls_sol0 (state1\<lparr>ls_Tyn := [1]\<rparr>) = [1]" by (simp add: state1_def)
  have i: "intermediates env4 0 state1 = Inr (state1\<lparr>ls_Tyn := [1]\<rparr>)"
    by (simp add: intermediates_def rebuild_def env4_def env3_def env1_def state1_def
        getitem_def tdot_def ncols_def col_def assign_vec_def)
  have a: "func_args env4 (state1\<lparr>ls_Tyn := [1]\<rparr>) [1] = args1"
    by (simp add: func_args_def env4_def env3_def env1_def state1_def args1_def kw1_def
        ncols_def)
  show ?thesis
    unfolding loop_step_def i g
    apply (simp only: sum.case f s a run1_chol_sparse option.case prod.case)
    apply (simp add: post_def assign_vec_def env4_def env3_def env1_def result1_def
        state1_def state3_def)
    done
qed

lemma func_args4: "func_args env4 state3 [1] = args4"
  by (simp add: func_args_def env4_def env3_def env1_def state3_def state1_def args4_def
      args1_def kw1_def ncols_def)

lemma first_pass4:
  "map_sum id st_priv (iter_body (solve_chol_sparse lib1) args4 (init_state args4 [1/9] None))
     = Inr (Some (0, 11761/2608))"
  by (simp add: eval_defs args4_def args1_def solve_chol_sparse_def)

text \<open>
  Claim C5, as stated, has the factorisation of sample \<open>ii\<close> at hand when sample
  \<open>ii + 1\<close> starts. \<^verbatim>\<open>factor\<close> is a local variable, set to \<^verbatim>\<open>None\<close> before the loop of
  every call. On \<open>env4\<close> the loop of sample 0 ends with a factor that was built once
  and updated once, \<open>(1, 9)\<close>; the call of sample 1 starts without a factor, and its
  first pass builds one anew: the factor after that pass, \<open>(0, 11761/2608)\<close>, has
  undergone no update.
\<close>

theorem factor_not_carried_over:
  "iter_loop (solve_chol_sparse lib1) args1 (init_state args1 [1] None) = Some (Inr final1)
   \<and> st_priv final1 = Some (1, 9)
   \<and> loop_step env4 0 state1 = Some (Inr state3)
   \<and> intermediates env4 1 state3 = Inr state3
   \<and> le_func env4 (func_args env4 state3 [1]) (ls_sol0 state3)
       = run_backend (solve_chol_sparse lib1) None args4 [1/9]
   \<and> st_priv (init_state args4 [1/9] (None :: (nat \<times> real) option)) \<noteq> st_priv final1
   \<and> map_sum id st_priv
         (iter_body (solve_chol_sparse lib1) args4 (init_state args4 [1/9] None))
       = Inr (Some (0, 11761/2608))"
proof -
  have i: "intermediates env4 1 state3 = Inr state3"
    by (simp add: intermediates_def rebuild_def env4_def env3_def env1_def state3_def
        state1_def getitem_def tdot_def ncols_def col_def assign_vec_def)
  have c: "le_func env4 (func_args env4 state3 [1]) (ls_sol0 state3)
       = run_backend (solve_chol_sparse lib1) None args4 [1/9]"
    unfolding func_args4
    by (simp add: env4_def state3_def inv_linear_augTikho_chol_sparse_def)
  have n: "st_priv (init_state args4 [1/9] (None :: (nat \<times> real) option)) \<noteq> st_priv final1"
    by (simp add: init_state_def final1_def)
  have p: "st_priv final1 = Some (1, 9)" by (simp add: final1_def)
  from loop1_chol_sparse p loop_step4 i c n first_pass4 show ?thesis by blast
qed

lemma solve_chol_sparse_factor:
  assumes "solve_chol_sparse lib fac A b = Inr (sol, fac')"
  shows "fac' = (case fac of
                   None \<Rightarrow> (case cholmod_cholesky lib A of Inl e \<Rightarrow> None | Inr f \<Rightarrow> Some f)
                 | Some f \<Rightarrow> Some (fst (cholesky_inplace lib f A)))"
  using assms
  by (auto simp: solve_chol_sparse_def Let_def bindE_eq_Inr
      split: option.splits sum.splits prod.splits)

text \<open>
  Claim C5, amended. The backend holds one factorisation object per call, that is per
  time sample: the loop of every call starts with \<^verbatim>\<open>factor = None\<close>; a pass that finds no
  factor builds one from \<open>TTn + mu0*R\<close> (and is left without one if that raises); a
  pass that finds a factor updates that object in place, and leaves it in \<^verbatim>\<open>factor\<close>
  whether the update raised or not.
\<close>

theorem factor_per_call:
  "inv_linear_augTikho_chol_sparse lib p sol0
     = (case iter_loop (solve_chol_sparse lib) p (init_state p sol0 None) of
          None \<Rightarrow> None | Some (Inl e) \<Rightarrow> Some (Inl e) | Some (Inr st) \<Rightarrow> Some (iter_return st))
   \<and> st_priv (init_state p sol0 (None :: 'f option)) = None
   \<and> (\<forall>st st' A. iter_body (solve_chol_sparse lib) p st = Inr st'
         \<longrightarrow> mat_add (arg_TTn p) (mat_scale (st_mu0 st) (arg_R p)) = Inr A
         \<longrightarrow> st_priv st' =
              (case st_priv st of
                 None \<Rightarrow> (case cholmod_cholesky lib A of Inl e \<Rightarrow> None | Inr f \<Rightarrow> Some f)
               | Some f \<Rightarrow> Some (fst (cholesky_inplace lib f A))))"
proof (intro conjI allI impI)
  show "inv_linear_augTikho_chol_sparse lib p sol0
     = (case iter_loop (solve_chol_sparse lib) p (init_state p sol0 None) of
          None \<Rightarrow> None | Some (Inl e) \<Rightarrow> Some (Inl e) | Some (Inr st) \<Rightarrow> Some (iter_return st))"
    by (simp add: inv_linear_augTikho_chol_sparse_def run_backend_def)
  show "st_priv (init_state p sol0 (None :: 'f option)) = None"
    by (simp add: init_state_def)
next
  fix st st' A
  assume b: "iter_body (solve_chol_sparse lib) p st = Inr st'"
    and A: "mat_add (arg_TTn p) (mat_scale (st_mu0 st) (arg_R p)) = Inr A"
  from b obtain A' sol priv where A': "mat_add (arg_TTn p) (mat_scale (st_mu0 st) (arg_R p)) = Inr A'"
    and s: "solve_chol_sparse lib (st_priv st) A' (arg_Tyn p) = Inr (sol, priv)"
    and p: "st_priv st' = priv"
    by (rule iter_body_InrE) simp
  from A A' have e: "A' = A" by simp
  from solve_chol_sparse_factor[OF s[unfolded e]] p
  show "st_priv st' =
              (case st_priv st of
                 None \<Rightarrow> (case cholmod_cholesky lib A of Inl e \<Rightarrow> None | Inr f \<Rightarrow> Some f)
               | Some f \<Rightarrow> Some (fst (cholesky_inplace lib f A)))"
    by simp
qed

lemma pass1: "iter_body (solve_chol_sparse lib1) args1 (init_state args1 [1] None) = Inr mid1"
  by (simp add: eval_defs args1_def solve_chol_sparse_def mid1_def)

lemma pass2: "iter_body (solve_chol_sparse lib1) args1 mid1 = Inr final1"
  by (simp add: eval_defs args1_def solve_chol_sparse_def mid1_def final1_def)

text \<open>Witness for the amended C5: the two passes of sample 0.\<close>

theorem factor_per_call_witness:
  "iter_body (solve_chol_sparse lib1) args1 (init_state args1 [1] None) = Inr mid1
   \<and> st_priv mid1 = Some (0, 2)
   \<and> iter_body (solve_chol_sparse lib1) args1 mid1 = Inr final1
   \<and> st_priv final1 = Some (1, 9)"
proof -
  have A1: "mat_add (arg_TTn args1)
       (mat_scale (st_mu0 (init_state args1 [1] (None :: (nat \<times> real) option))) (arg_R args1))
         = Inr [[2]]"
    by (simp add: args1_def init_state_def mat_add_def mat_scale_def)
  have A2: "mat_add (arg_TTn args1) (mat_scale (st_mu0 mid1) (arg_R args1)) = Inr [[9]]"
    by (simp add: args1_def mid1_def mat_add_def mat_scale_def)
  note T = factor_per_call[of lib1 args1 "[1]", THEN conjunct2, THEN conjunct2, rule_format]
  from T[OF pass1 A1] have "st_priv mid1 = Some (0, 2)"
    by (simp add: init_state_def lib1_def)
  moreover from T[OF pass2 A2] this have "st_priv final1 = Some (1, 9)"
    by (simp add: lib1_def)
  ultimately show ?thesis using pass1 pass2 by simp
qed

subsection \<open>Cropping: scatter and gather\<close>

text \<open>
  \<^verbatim>\<open>np.tile(np.arange(nR), nZ)\<close> and \<^verbatim>\<open>np.repeat(np.arange(nZ), nR)\<close>, side by side, list
  the positions of the grid column after column, each once.
\<close>

lemma zip_tile_repeat:
  "zip (concat (replicate (length js) xs)) (concat (map (replicate (length xs)) js))
     = concat (map (\<lambda>j. map (\<lambda>i. (i, j)) xs) js)"
  by (induction js) (simp_all add: zip_replicate2)

lemma length_concat_replicate: "length (concat (replicate n xs)) = n * length xs"
  by (induction n) simp_all

lemma length_concat_map_replicate: "length (concat (map (replicate n) js)) = length js * n"
  by (induction js) simp_all

lemma distinct_positions:
  "distinct xs \<Longrightarrow> distinct js \<Longrightarrow> distinct (concat (map (\<lambda>j. map (\<lambda>i. (i, j)) xs) js))"
  by (induction js) (auto simp: distinct_map inj_on_def)

lemma set_positions:
  "set (concat (map (\<lambda>j. map (\<lambda>i. (i, j)) xs) js)) = set xs \<times> set js"
  by auto

lemma positions:
  "zip (tile [0..<nR] nZ) (repeat_each [0..<nZ] nR)
     = concat (map (\<lambda>j. map (\<lambda>i. (i, j)) [0..<nR]) [0..<nZ])"
  using zip_tile_repeat[of "[0..<nZ]" "[0..<nR]"] by (simp add: tile_def repeat_each_def)

text \<open>Indexing two arrays by one boolean array keeps the pairs of the entries kept.\<close>

lemma zip_filtered:
  "length xs = length ys \<Longrightarrow> length ys = length m \<Longrightarrow>
     zip (map fst (filter snd (zip xs m))) (map fst (filter snd (zip ys m)))
       = map fst (filter snd (zip (zip xs ys) m))"
  by (induction xs ys m rule: list_induct3) auto

lemma distinct_filtered: "distinct xs \<Longrightarrow> distinct (map fst (filter snd (zip xs m)))"
proof (induction xs arbitrary: m)
  case Nil
  then show ?case by simp
next
  case (Cons x xs)
  have sub: "set (map fst (filter snd (zip xs m'))) \<subseteq> set xs" for m'
    by (auto dest: set_zip_leftD)
  show ?case
  proof (cases m)
    case Nil
    then show ?thesis by simp
  next
    case (Cons b m')
    with Cons.prems Cons.IH[of m'] sub[of m'] show ?thesis by auto
  qed
qed

lemma set_filtered: "set (map fst (filter snd (zip xs m))) \<subseteq> set xs"
  by (auto dest: set_zip_leftD)

lemma length_filtered:
  "length xs = length m \<Longrightarrow> length (filter snd (zip xs m)) = length (filter id m)"
  by (induction xs m rule: list_induct2) auto

text \<open>
  Writing values at positions that are pairwise different and inside the grid, then
  reading the same positions, gives the values back.
\<close>

lemma upd_shape:
  "map length (g[i := (g ! i)[j := x]]) = map length (g :: 'a list list)"
  by (cases "i < length g")
     (auto simp: list_eq_iff_nth_eq nth_list_update list_update_beyond not_less)

lemma scatter_shape:
  "map length (fold (\<lambda>(i, j, x) g. g[i := (g ! i)[j := x]]) ts g) = map length (g :: mat)"
  by (induction ts arbitrary: g) (auto simp: upd_shape)

lemma upd_other:
  "(i', j') \<noteq> (i, j) \<Longrightarrow> g[i := (g ! i)[j := x]] ! i' ! j' = g ! i' ! j'"
  by (cases "i < length g") (auto simp: nth_list_update list_update_beyond not_less)

lemma scatter_other:
  "length is = length js \<Longrightarrow> length js = length vs \<Longrightarrow> (i, j) \<notin> set (zip is js) \<Longrightarrow>
     fold (\<lambda>(i, j, x) g. g[i := (g ! i)[j := x]]) (zip is (zip js vs)) g ! i ! j = g ! i ! j"
proof (induction "is" js vs arbitrary: g rule: list_induct3)
  case Nil
  then show ?case by simp
next
  case (Cons i' "is" j' js v vs)
  from Cons.prems have ne: "(i, j) \<noteq> (i', j')" and rest: "(i, j) \<notin> set (zip is js)" by auto
  from Cons.IH[OF rest] upd_other[OF ne] show ?case by simp
qed

lemma in_range_shape:
  assumes "map length g' = map length (g :: mat)" "i < length g" "j < length (g ! i)"
  shows "i < length g'" "j < length (g' ! i)"
proof -
  from assms(1) have l: "length g' = length g" by (metis length_map)
  with assms(2) show "i < length g'" by simp
  from assms(1) assms(2) l have "length (g' ! i) = length (g ! i)"
    by (metis nth_map)
  with assms(3) show "j < length (g' ! i)" by simp
qed

lemma gather_scatter:
  "length is = length js \<Longrightarrow> length js = length vs \<Longrightarrow> distinct (zip is js) \<Longrightarrow>
   \<forall>(i, j) \<in> set (zip is js). i < length g \<and> j < length (g ! i) \<Longrightarrow>
     gather (scatter g is js vs) is js = vs"
  unfolding gather_def scatter_def
proof (induction "is" js vs arbitrary: g rule: list_induct3)
  case Nil
  then show ?case by simp
next
  case (Cons i "is" j js v vs)
  let ?u = "\<lambda>(i, j, x) g. g[i := (g ! i)[j := x]]"
  let ?g = "g[i := (g ! i)[j := v]]"
  from Cons.prems have notin: "(i, j) \<notin> set (zip is js)" and d: "distinct (zip is js)"
    and ri: "i < length g" and rj: "j < length (g ! i)"
    and rest: "\<forall>(i, j) \<in> set (zip is js). i < length g \<and> j < length (g ! i)"
    by auto
  have sh: "map length ?g = map length g" by (rule upd_shape)
  have rest': "\<forall>(i, j) \<in> set (zip is js). i < length ?g \<and> j < length (?g ! i)"
    using rest in_range_shape[OF sh] by blast
  have hd: "fold ?u (zip is (zip js vs)) ?g ! i ! j = v"
    using scatter_other[OF Cons.hyps notin, of ?g] ri rj by simp
  from Cons.IH[OF d rest'] hd show ?case by simp
qed

text \<open>The indices \<open>iR\<close>, \<open>iZ\<close> of a mask over the grid.\<close>

lemma ncols_rect: "length A = n \<Longrightarrow> list_all (\<lambda>r. length r = m) A \<Longrightarrow> ncols A * n = n * m"
  by (cases A) (auto simp: ncols_def)

lemma length_ravel_F: "length (ravel_F A) = ncols A * length A"
  by (simp add: ravel_F_def length_concat comp_def sum_list_triv)

lemma crop_indices_ok:
  assumes "length cropbs = nR" "list_all (\<lambda>r. length r = nZ) cropbs"
  obtains iR iZ where "crop_indices (nR, nZ) cropbs = Inr (iR, iZ)"
    "length iR = length (filter id (ravel_F cropbs))" "length iZ = length iR"
    "distinct (zip iR iZ)" "\<forall>(i, j) \<in> set (zip iR iZ). i < nR \<and> j < nZ"
proof -
  let ?T = "tile [0..<nR] nZ" and ?Z = "repeat_each [0..<nZ] nR" and ?f = "ravel_F cropbs"
  have lf: "length ?f = nR * nZ"
    using ncols_rect[OF assms] assms(1) by (simp add: length_ravel_F)
  have lT: "length ?T = length ?f"
    by (simp add: lf tile_def length_concat_replicate)
  have lZ: "length ?Z = length ?f"
    by (simp add: lf repeat_each_def length_concat_map_replicate)
  let ?iR = "map fst (filter snd (zip ?T ?f))" and ?iZ = "map fst (filter snd (zip ?Z ?f))"
  have c: "crop_indices (nR, nZ) cropbs = Inr (?iR, ?iZ)"
    using lT lZ by (simp add: crop_indices_def bool_index_def)
  have z: "zip ?iR ?iZ = map fst (filter snd (zip (zip ?T ?Z) ?f))"
    using lT lZ by (intro zip_filtered) simp_all
  have dp: "distinct (zip ?T ?Z)"
    unfolding positions by (rule distinct_positions) simp_all
  have d: "distinct (zip ?iR ?iZ)"
    unfolding z by (rule distinct_filtered[OF dp])
  have "set (zip ?iR ?iZ) \<subseteq> set (zip ?T ?Z)"
    unfolding z by (rule set_filtered)
  also have "\<dots> = {0..<nR} \<times> {0..<nZ}"
    unfolding positions by (simp only: set_positions set_upt)
  finally have r: "\<forall>(i, j) \<in> set (zip ?iR ?iZ). i < nR \<and> j < nZ" by auto
  have l1: "length ?iR = length (filter id ?f)"
    using length_filtered[OF lT] by simp
  have l2: "length ?iZ = length ?iR"
    using length_filtered[OF lT] length_filtered[OF lZ] by simp
  from c l1 l2 d r show ?thesis by (rule that)
qed

lemma sequenceE_if:
  "\<forall>x \<in> set xs. P x \<Longrightarrow>
     sequenceE (map (\<lambda>x. if P x then Inr (f x) else Inl e) xs) = Inr (map f xs)"
  by (induction xs) simp_all

text \<open>
  Claim C7. For a crop mask over a grid of \<open>nR\<close> by \<open>nZ\<close> whose column-major flattening
  has \<open>nbs\<close> true entries, and a solution array whose rows have length \<open>nbs\<close>, the
  assembler scatters every row into a full grid, and gathering the grid at the same
  indices, in the same order, gives the row back.
\<close>

theorem crop_round_trip:
  assumes "length cropbs = nR" "list_all (\<lambda>r. length r = nZ) cropbs"
    and "length (filter id (ravel_F cropbs)) = nbs"
    and "list_all (\<lambda>row. length row = nbs) sol"
  shows "\<exists>iR iZ full. crop_indices (nR, nZ) cropbs = Inr (iR, iZ)
           \<and> sol_full_of (nR, nZ) cropbs sol = Inr full
           \<and> map (\<lambda>g. gather g iR iZ) full = sol"
proof -
  from assms(1,2) obtain iR iZ where c: "crop_indices (nR, nZ) cropbs = Inr (iR, iZ)"
    and l1: "length iR = length (filter id (ravel_F cropbs))" and l2: "length iZ = length iR"
    and d: "distinct (zip iR iZ)" and r: "\<forall>(i, j) \<in> set (zip iR iZ). i < nR \<and> j < nZ"
    by (rule crop_indices_ok)
  let ?full = "map (scatter (zeros nR nZ) iR iZ) sol"
  have rows: "row \<in> set sol \<Longrightarrow> length row = length iR" for row
    using assms(3,4) l1 by (simp add: list_all_iff)
  have "\<forall>row \<in> set sol. length row = length iR" using rows by simp
  then have s: "sol_full_of (nR, nZ) cropbs sol = Inr ?full"
    by (simp add: sol_full_of_def c sequenceE_if cong: if_cong)
  have rz: "\<forall>(i, j) \<in> set (zip iR iZ). i < length (zeros nR nZ) \<and> j < length (zeros nR nZ ! i)"
    using r by (auto simp: zeros_def)
  have "gather (scatter (zeros nR nZ) iR iZ row) iR iZ = row" if "row \<in> set sol" for row
    using gather_scatter[OF l2[symmetric] _ d rz, of row] rows[OF that] l2 by simp
  then have "map (\<lambda>g. gather g iR iZ) ?full = sol"
    by (simp add: map_idI)
  with c s show ?thesis by blast
qed

text \<open>Witness for C7: a grid of 2 by 2 with three cells kept.\<close>

theorem crop_round_trip_witness:
  "crop_indices (2, 2) [[True, False], [True, True]] = Inr ([0, 1, 1], [0, 0, 1])
   \<and> sol_full_of (2, 2) [[True, False], [True, True]] [[5, 6, 7]] = Inr [[[5, 0], [6, 7]]]
   \<and> map (\<lambda>g. gather g [0, 1, 1] [0, 0, 1]) [[[5, 0], [6, 7]]] = [[5, 6, 7]]"
proof -
  have u: "[0..<2] = [0, 1]" by (simp add: upt_rec)
  have c: "crop_indices (2, 2) [[True, False], [True, True]] = Inr ([0, 1, 1], [0, 0, 1])"
    by (simp add: crop_indices_def bool_index_def tile_def repeat_each_def ravel_F_def
        ncols_def u numeral_2_eq_2)
  have f: "length (filter id (ravel_F [[True, False], [True, True]])) = 3"
    by (simp add: ravel_F_def ncols_def u)
  from crop_round_trip[of "[[True, False], [True, True]]" 2 2 3 "[[5, 6, 7]]"] f c
  obtain full where s: "sol_full_of (2, 2) [[True, False], [True, True]] [[5, 6, 7]] = Inr full"
    and g: "map (\<lambda>g. gather g [0, 1, 1] [0, 0, 1]) full = [[5, 6, 7]]"
    by auto
  have "sol_full_of (2, 2) [[True, False], [True, True]] [[5, 6, 7]] = Inr [[[5, 0], [6, 7]]]"
    unfolding sol_full_of_def c
    by (simp add: scatter_def zeros_def numeral_2_eq_2)
  with s g c show ?thesis by simp
qed

subsection \<open>The iteration cap\<close>


















end
